theory Spec2Isabelle
  imports Complex_Main "HOL-Library.Multiset" "HOL-Library.Product_Lexorder"
begin

section \<open>Exceptions and text\<close>

text \<open>
  The report generator is a script around three libraries: the spreadsheet client, the
  data-frame library and the front-end. Every raise of the script or of a library call
  it makes is a value of \<open>exn\<close>: the class of the exception and the text that
  \<^verbatim>\<open>str(e)\<close> gives. Results are \<open>exn + 'a\<close>, with \<open>Inl\<close> the raise.
\<close>

datatype exn_class = RemoteError | KeyError | ValueError | AttributeError | TypeError

datatype exn = Exn (exn_class: exn_class) (str: string)

text \<open>Decimal text of a natural number, as \<^verbatim>\<open>f"{n}"\<close> prints it.\<close>

definition digit_char :: "nat \<Rightarrow> char" where
  "digit_char n = ''0123456789'' ! n"

function show_nat :: "nat \<Rightarrow> string" where
  "show_nat n = (if n < 10 then [digit_char n] else show_nat (n div 10) @ [digit_char (n mod 10)])"
  by pat_completeness auto
termination
  by (relation "measure (\<lambda>n. n)") auto

declare show_nat.simps [simp del]

text \<open>Text of a natural number in at least \<open>w\<close> digits, filled with zeros on the left.\<close>

definition zero_pad :: "nat \<Rightarrow> nat \<Rightarrow> string" where
  "zero_pad w n = replicate (w - length (show_nat n)) (CHR ''0'') @ show_nat n"

definition is_digit :: "char \<Rightarrow> bool" where
  "is_digit c = (48 \<le> (of_char c :: nat) \<and> (of_char c :: nat) \<le> 57)"

definition digit_val :: "char \<Rightarrow> nat" where
  "digit_val c = of_char c - 48"

definition digits_val :: "string \<Rightarrow> nat" where
  "digits_val s = foldl (\<lambda>a c. 10 * a + digit_val c) 0 s"

section \<open>Cell coercion: numbers and dates\<close>

text \<open>
  \<^verbatim>\<open>pd.to_numeric(..., errors='coerce')\<close> on one string. The library's reader takes
  blanks, an optional sign, digits with an optional decimal point (at least one digit),
  an optional exponent \<^verbatim>\<open>e\<close> or \<^verbatim>\<open>E\<close> with its own sign and at least one digit,
  and blanks; anything left over makes the string unparseable, and so does the empty
  string. With \<^verbatim>\<open>errors='coerce'\<close> an unparseable string gives NaN and nothing is
  raised: \<open>None\<close> here.

  Numbers are exact rationals where the library computes in IEEE doubles. The words
  \<^verbatim>\<open>inf\<close> and \<^verbatim>\<open>infinity\<close>, which the library reads as infinities, and
  literals beyond the range of doubles have no finite value and are \<open>None\<close> here.
\<close>

definition is_space :: "char \<Rightarrow> bool" where
  "is_space c = (c \<in> set [CHR '' '', CHR 0x09, CHR 0x0A, CHR 0x0B, CHR 0x0C, CHR 0x0D])"

definition read_sign :: "string \<Rightarrow> bool \<times> string" where
  "read_sign s =
     (case s of
        [] \<Rightarrow> (False, [])
      | c # r \<Rightarrow> if c = CHR ''-'' then (True, r) else if c = CHR ''+'' then (False, r) else (False, s))"

definition read_fraction :: "string \<Rightarrow> string \<times> string" where
  "read_fraction s =
     (case s of
        [] \<Rightarrow> ([], [])
      | c # r \<Rightarrow> if c = CHR ''.'' then (takeWhile is_digit r, dropWhile is_digit r) else ([], s))"

text \<open>
  The exponent, if one is there: its value and the rest of the text. An \<^verbatim>\<open>e\<close> with
  no digit after it is not consumed, so it is left over.
\<close>

definition read_exponent :: "string \<Rightarrow> int \<times> string" where
  "read_exponent s =
     (case s of
        [] \<Rightarrow> (0, [])
      | c # r \<Rightarrow>
          if c = CHR ''e'' \<or> c = CHR ''E'' then
            (case read_sign r of
               (neg, r') \<Rightarrow>
                 if takeWhile is_digit r' = [] then (0, s)
                 else ((if neg then - int (digits_val (takeWhile is_digit r'))
                        else int (digits_val (takeWhile is_digit r'))),
                       dropWhile is_digit r'))
          else (0, s))"

definition scale10 :: "rat \<Rightarrow> int \<Rightarrow> rat" where
  "scale10 x e = (if 0 \<le> e then x * 10 ^ nat e else x / 10 ^ nat (- e))"

definition to_numeric :: "string \<Rightarrow> rat option" where
  "to_numeric s =
     (case read_sign (dropWhile is_space s) of
        (neg, s2) \<Rightarrow>
          (case read_fraction (dropWhile is_digit s2) of
             (fp, s4) \<Rightarrow>
               if takeWhile is_digit s2 = [] \<and> fp = [] then None
               else (case read_exponent s4 of
                       (ex, s5) \<Rightarrow>
                         if dropWhile is_space s5 \<noteq> [] then None
                         else Some (scale10
                                ((if neg then - 1 else 1) *
                                 (of_nat (digits_val (takeWhile is_digit s2 @ fp)) / 10 ^ length fp))
                                ex))))"

text \<open>
  \<^verbatim>\<open>pd.to_datetime(..., format='%d/%m/%Y', errors='coerce')\<close> on one string. The whole
  string has to be day, slash, month, slash, year: the day as one or two digits from 1
  to 31 (a single digit may follow a blank or a zero), the month as one or two digits
  from 1 to 12, the year as exactly four digits. The date has to exist in the calendar
  and to lie in the nanosecond range of the library's timestamps (22 September 1677 to
  11 April 2262); anything else gives NaT and nothing is raised: \<open>None\<close> here.
\<close>

record date =
  year :: nat
  month :: nat
  day :: nat

definition read_day :: "string \<Rightarrow> nat option" where
  "read_day s =
     (case s of
        [a] \<Rightarrow> if is_digit a \<and> a \<noteq> CHR ''0'' then Some (digit_val a) else None
      | [a, b] \<Rightarrow>
          if a = CHR ''3'' \<and> (b = CHR ''0'' \<or> b = CHR ''1'') then Some (30 + digit_val b)
          else if (a = CHR ''1'' \<or> a = CHR ''2'') \<and> is_digit b then Some (10 * digit_val a + digit_val b)
          else if (a = CHR ''0'' \<or> a = CHR '' '') \<and> is_digit b \<and> b \<noteq> CHR ''0'' then Some (digit_val b)
          else None
      | _ \<Rightarrow> None)"

definition read_month :: "string \<Rightarrow> nat option" where
  "read_month s =
     (case s of
        [a] \<Rightarrow> if is_digit a \<and> a \<noteq> CHR ''0'' then Some (digit_val a) else None
      | [a, b] \<Rightarrow>
          if a = CHR ''1'' \<and> (b = CHR ''0'' \<or> b = CHR ''1'' \<or> b = CHR ''2'') then Some (10 + digit_val b)
          else if a = CHR ''0'' \<and> is_digit b \<and> b \<noteq> CHR ''0'' then Some (digit_val b)
          else None
      | _ \<Rightarrow> None)"

definition read_year :: "string \<Rightarrow> nat option" where
  "read_year s = (if length s = 4 \<and> list_all is_digit s then Some (digits_val s) else None)"

definition leap_year :: "nat \<Rightarrow> bool" where
  "leap_year y = (y mod 4 = 0 \<and> (y mod 100 \<noteq> 0 \<or> y mod 400 = 0))"

definition days_in_month :: "nat \<Rightarrow> nat \<Rightarrow> nat" where
  "days_in_month y m =
     (if m = 2 then (if leap_year y then 29 else 28)
      else if m = 4 \<or> m = 6 \<or> m = 9 \<or> m = 11 then 30 else 31)"

definition in_timestamp_range :: "nat \<Rightarrow> nat \<Rightarrow> nat \<Rightarrow> bool" where
  "in_timestamp_range y m d = ((1677, 9, 22) \<le> (y, m, d) \<and> (y, m, d) \<le> (2262, 4, 11))"

definition to_datetime :: "string \<Rightarrow> date option" where
  "to_datetime s =
     (case dropWhile (\<lambda>c. c \<noteq> CHR ''/'') s of
        [] \<Rightarrow> None
      | _ # r \<Rightarrow>
          (case dropWhile (\<lambda>c. c \<noteq> CHR ''/'') r of
             [] \<Rightarrow> None
           | _ # ys \<Rightarrow>
               (case (read_day (takeWhile (\<lambda>c. c \<noteq> CHR ''/'') s),
                      read_month (takeWhile (\<lambda>c. c \<noteq> CHR ''/'') r),
                      read_year ys) of
                  (Some d, Some m, Some y) \<Rightarrow>
                    if 1 \<le> y \<and> d \<le> days_in_month y m \<and> in_timestamp_range y m d
                    then Some \<lparr>year = y, month = m, day = d\<rparr> else None
                | _ \<Rightarrow> None)))"

section \<open>Data frames\<close>

text \<open>
  A grid is what \<^verbatim>\<open>get_all_values\<close> returns: a list of rows, each a list of strings;
  row 0 is the header. A character is a code point below 256.

  A cell of a data frame is a string, a date, a number, or missing (\<^verbatim>\<open>None\<close>,
  \<^verbatim>\<open>NaN\<close> and \<^verbatim>\<open>NaT\<close> are one value \<open>NA\<close>). A frame is its number of rows
  and its columns in order, each a label and the cells of the column; labels may repeat,
  as the library allows. \<^verbatim>\<open>pd.DataFrame()\<close> is the frame with no row and no column.
\<close>

type_synonym raw_grid = "string list list"

datatype cell = Text string | Date date | Number rat | NA

type_synonym series = "cell list"

record data_frame =
  nrows :: nat
  cols :: "(string \<times> series) list"

definition col_names :: "data_frame \<Rightarrow> string list" where
  "col_names df = map fst (cols df)"

definition empty_frame :: data_frame where
  "empty_frame = \<lparr>nrows = 0, cols = []\<rparr>"

text \<open>\<^verbatim>\<open>df.empty\<close>: some axis has length 0.\<close>

definition frame_empty :: "data_frame \<Rightarrow> bool" where
  "frame_empty df = (nrows df = 0 \<or> cols df = [])"

text \<open>
  \<^verbatim>\<open>pd.DataFrame(data, columns=header)\<close> for a non-empty list of rows. The library
  takes the longest row as the width of the data, fills shorter rows with \<^verbatim>\<open>None\<close>,
  and raises \<^verbatim>\<open>ValueError\<close> when that width is not the number of labels.
\<close>

definition data_width :: "string list list \<Rightarrow> nat" where
  "data_width data = foldr (\<lambda>row w. max (length row) w) data 0"

definition shape_error :: "nat \<Rightarrow> nat \<Rightarrow> exn" where
  "shape_error n w =
     Exn ValueError (show_nat n @ '' columns passed, passed data had '' @ show_nat w @ '' columns'')"

definition cell_at :: "string list \<Rightarrow> nat \<Rightarrow> cell" where
  "cell_at row j = (if j < length row then Text (row ! j) else NA)"

definition DataFrame :: "string list list \<Rightarrow> string list \<Rightarrow> exn + data_frame" where
  "DataFrame data header =
     (if data_width data \<noteq> length header then Inl (shape_error (length header) (data_width data))
      else Inr \<lparr>nrows = length data,
                cols = map (\<lambda>j. (header ! j, map (\<lambda>row. cell_at row j) data)) [0..<length header]\<rparr>)"

text \<open>
  \<^verbatim>\<open>df[name]\<close>: \<^verbatim>\<open>KeyError\<close> when no column has the label, the column when
  exactly one has it. When several have it the library gives a frame, not a series, and
  the call made on it raises: \<^verbatim>\<open>.str\<close> and \<^verbatim>\<open>.dt\<close> raise
  \<^verbatim>\<open>AttributeError\<close>, \<^verbatim>\<open>pd.to_datetime\<close> raises \<^verbatim>\<open>ValueError\<close>,
  \<^verbatim>\<open>pd.to_numeric\<close> and the formatting of a total raise \<^verbatim>\<open>TypeError\<close>. The
  second argument is that exception.
\<close>

definition quoted :: "string \<Rightarrow> string" where
  "quoted s = [CHR 0x27] @ s @ [CHR 0x27]"

definition key_error :: "string \<Rightarrow> exn" where
  "key_error name = Exn KeyError (quoted name)"

definition get_col :: "data_frame \<Rightarrow> exn \<Rightarrow> string \<Rightarrow> exn + series" where
  "get_col df not_series name =
     (case filter (\<lambda>c. fst c = name) (cols df) of
        [] \<Rightarrow> Inl (key_error name)
      | [c] \<Rightarrow> Inr (snd c)
      | _ \<Rightarrow> Inl not_series)"

definition no_attribute :: "string \<Rightarrow> exn" where
  "no_attribute a = Exn AttributeError (quoted ''DataFrame'' @ '' object has no attribute '' @ quoted a)"

definition duplicate_keys :: exn where
  "duplicate_keys = Exn ValueError ''cannot assemble with duplicate keys''"

definition not_one_dimensional :: exn where
  "not_one_dimensional = Exn TypeError ''arg must be a list, tuple, 1-d array, or Series''"

definition no_format :: exn where
  "no_format = Exn TypeError ''unsupported format string passed to Series.__format__''"

text \<open>
  \<^verbatim>\<open>df[name] = values\<close>: every column with the label takes the values; when there
  is none, a new column is added at the end.
\<close>

definition set_col :: "data_frame \<Rightarrow> string \<Rightarrow> series \<Rightarrow> data_frame" where
  "set_col df name values =
     (if name \<in> set (col_names df)
      then df\<lparr>cols := map (\<lambda>c. if fst c = name then (name, values) else c) (cols df)\<rparr>
      else df\<lparr>cols := cols df @ [(name, values)]\<rparr>)"

text \<open>
  \<^verbatim>\<open>df[[name1, name2, ...]]\<close>: for each label in turn every column that has it;
  \<^verbatim>\<open>KeyError\<close> when a label has no column.
\<close>

definition select_cols :: "data_frame \<Rightarrow> string list \<Rightarrow> exn + data_frame" where
  "select_cols df names =
     (case filter (\<lambda>n. n \<notin> set (col_names df)) names of
        [] \<Rightarrow> Inr (df\<lparr>cols := concat (map (\<lambda>n. filter (\<lambda>c. fst c = n) (cols df)) names)\<rparr>)
      | n # _ \<Rightarrow> Inl (key_error n))"

section \<open>Coercion of a column\<close>

text \<open>
  \<^verbatim>\<open>pd.to_datetime(col, format='%d/%m/%Y', errors='coerce')\<close>,
  \<^verbatim>\<open>pd.to_numeric(col, errors='coerce')\<close> and \<^verbatim>\<open>col.str.replace(pat, '', regex=True)\<close>
  work cell by cell; a missing cell stays missing. The two patterns of the script are
  \<^verbatim>\<open>[^\d.]\<close>, which deletes every character that is neither a digit nor a point, and
  \<^verbatim>\<open>%\<close>, which deletes every percent sign.
\<close>

definition coerce_date :: "cell \<Rightarrow> cell" where
  "coerce_date c =
     (case c of Text s \<Rightarrow> (case to_datetime s of Some d \<Rightarrow> Date d | None \<Rightarrow> NA) | _ \<Rightarrow> NA)"

definition coerce_number :: "cell \<Rightarrow> cell" where
  "coerce_number c =
     (case c of Text s \<Rightarrow> (case to_numeric s of Some x \<Rightarrow> Number x | None \<Rightarrow> NA) | _ \<Rightarrow> NA)"

definition str_delete :: "(char \<Rightarrow> bool) \<Rightarrow> cell \<Rightarrow> cell" where
  "str_delete p c = (case c of Text s \<Rightarrow> Text (filter (\<lambda>x. \<not> p x) s) | _ \<Rightarrow> NA)"

definition not_digit_or_point :: "char \<Rightarrow> bool" where
  "not_digit_or_point c = (\<not> is_digit c \<and> c \<noteq> CHR ''.'')"

definition is_percent :: "char \<Rightarrow> bool" where
  "is_percent c = (c = CHR ''%'')"

definition divide_by :: "rat \<Rightarrow> cell \<Rightarrow> cell" where
  "divide_by k c = (case c of Number x \<Rightarrow> Number (x / k) | _ \<Rightarrow> NA)"

text \<open>The coercions of the script on one cell.\<close>

definition coerce_currency :: "cell \<Rightarrow> cell" where
  "coerce_currency c = coerce_number (str_delete not_digit_or_point c)"

definition coerce_percent :: "cell \<Rightarrow> cell" where
  "coerce_percent c = divide_by 100 (coerce_number (str_delete is_percent c))"

text \<open>
  A source column read for a date, for a stripped number, for a percentage and for a
  plain number, with the exception each call raises on a repeated label.
\<close>

definition date_col :: "data_frame \<Rightarrow> string \<Rightarrow> exn + series" where
  "date_col df name = map_sum id (map coerce_date) (get_col df duplicate_keys name)"

definition currency_col :: "data_frame \<Rightarrow> string \<Rightarrow> exn + series" where
  "currency_col df name = map_sum id (map coerce_currency) (get_col df (no_attribute ''str'') name)"

definition percent_col :: "data_frame \<Rightarrow> string \<Rightarrow> exn + series" where
  "percent_col df name = map_sum id (map coerce_percent) (get_col df (no_attribute ''str'') name)"

definition number_col :: "data_frame \<Rightarrow> string \<Rightarrow> exn + series" where
  "number_col df name = map_sum id (map coerce_number) (get_col df not_one_dimensional name)"

section \<open>The three normalizers\<close>

text \<open>
  Each fetch function of the script ends in the same way: from the grid it has fetched it
  builds the typed frame. \<open>normalize_products\<close>, \<open>normalize_orders\<close> and
  \<open>normalize_hours\<close> are these ends, from \<^verbatim>\<open>if len(raw_data) > 1\<close> to the last
  \<^verbatim>\<open>return\<close>, of \<^verbatim>\<open>fetch_products_data\<close>, \<^verbatim>\<open>fetch_orders_data\<close> and
  \<^verbatim>\<open>fetch_hours_data\<close>. \<open>bind_exn\<close> runs the next statement unless the one before
  raised.
\<close>

definition bind_exn :: "exn + 'a \<Rightarrow> ('a \<Rightarrow> exn + 'b) \<Rightarrow> exn + 'b" where
  "bind_exn r f = (case r of Inl e \<Rightarrow> Inl e | Inr x \<Rightarrow> f x)"

definition assign_col :: "string \<Rightarrow> (data_frame \<Rightarrow> exn + series) \<Rightarrow> data_frame \<Rightarrow> exn + data_frame" where
  "assign_col name rhs df = bind_exn (rhs df) (\<lambda>values. Inr (set_col df name values))"

definition normalize_products :: "raw_grid \<Rightarrow> exn + data_frame" where
  "normalize_products raw_data =
     (if length raw_data > 1 then
        bind_exn (DataFrame (tl raw_data) (hd raw_data)) (\<lambda>df.
        bind_exn (assign_col ''Date Uploaded'' (\<lambda>df. date_col df ''Date Uploaded:'') df) (\<lambda>df.
        bind_exn (assign_col ''eBay Price'' (\<lambda>df. currency_col df ''eBay Price'') df) (\<lambda>df.
        bind_exn (assign_col ''Profit Per Product Present''
                    (\<lambda>df. percent_col df ''Profit Per Product Present'') df) (\<lambda>df.
        select_cols df [''Date Uploaded'', ''eBay Price'', ''Profit Per Product Present'']))))
      else Inr empty_frame)"

definition normalize_orders :: "raw_grid \<Rightarrow> exn + data_frame" where
  "normalize_orders raw_data =
     (if length raw_data > 1 then
        bind_exn (DataFrame (tl raw_data) (hd raw_data)) (\<lambda>df.
        bind_exn (assign_col ''Date Of Purchase'' (\<lambda>df. date_col df ''Date Of Purchase'') df) (\<lambda>df.
        bind_exn (assign_col ''eBay Price'' (\<lambda>df. currency_col df ''eBay Price'') df) (\<lambda>df.
        bind_exn (assign_col ''Profit Per Sale USD'' (\<lambda>df. currency_col df ''Profit Per Sale USD'') df) (\<lambda>df.
        bind_exn (assign_col ''Total Sales'' (\<lambda>df. currency_col df ''Total Sales'') df) (\<lambda>df.
        bind_exn (assign_col ''Total Profits'' (\<lambda>df. currency_col df ''Total Profits'') df) (\<lambda>df.
        select_cols df [''Date Of Purchase'', ''eBay Price'', ''Profit Per Sale USD'',
                        ''Total Sales'', ''Total Profits'']))))))
      else Inr empty_frame)"

definition normalize_hours :: "raw_grid \<Rightarrow> exn + data_frame" where
  "normalize_hours raw_data =
     (if length raw_data > 1 then
        bind_exn (DataFrame (tl raw_data) (hd raw_data)) (\<lambda>df.
        bind_exn (assign_col ''Date'' (\<lambda>df. date_col df ''Date:'') df) (\<lambda>df.
        bind_exn (assign_col ''Hours'' (\<lambda>df. number_col df ''Hours:'') df) (\<lambda>df.
        select_cols df [''Date'', ''Hours''])))
      else Inr empty_frame)"

section \<open>Aggregation by month\<close>

text \<open>
  \<^verbatim>\<open>col.dt.to_period('M')\<close> gives each date its month, a pair of year and month, and
  leaves a missing date missing. Months are ordered by year, then by month.

  \<^verbatim>\<open>df.groupby(keys)\<close> drops the rows whose key is missing and gives the groups in
  ascending order of their key, one group for each key that occurs. \<open>groupby keys xs\<close>
  is the list of the groups, each with the values of \<open>xs\<close> on the rows of the group,
  in the order of the rows.
\<close>

type_synonym period = "nat \<times> nat"

definition period_of :: "cell \<Rightarrow> period option" where
  "period_of c = (case c of Date d \<Rightarrow> Some (year d, month d) | _ \<Rightarrow> None)"

definition group_keys :: "series \<Rightarrow> period list" where
  "group_keys keys = sort (remdups (List.map_filter period_of keys))"

definition group_rows :: "period \<Rightarrow> series \<Rightarrow> 'a list \<Rightarrow> 'a list" where
  "group_rows k keys xs = map snd (filter (\<lambda>row. period_of (fst row) = Some k) (zip keys xs))"

definition groupby :: "series \<Rightarrow> 'a list \<Rightarrow> (period \<times> 'a list) list" where
  "groupby keys xs = map (\<lambda>k. (k, group_rows k keys xs)) (group_keys keys)"

text \<open>
  The three reductions of the script: \<^verbatim>\<open>.size()\<close> counts the rows of a group,
  \<^verbatim>\<open>[col].count()\<close> counts the rows of a group whose value is not missing,
  \<^verbatim>\<open>[col].sum()\<close> adds the values of a group that are not missing.

  The sums here are exact, over the rationals, in the order of the rows. The script adds
  doubles, and such a sum can change with the order of the rows; so nothing is stated
  below about the value of a sum when the rows are put in another order.
\<close>

type_synonym aggregated = "(period \<times> rat) list"

definition number_of :: "cell \<Rightarrow> rat option" where
  "number_of c = (case c of Number x \<Rightarrow> Some x | _ \<Rightarrow> None)"

definition sum_numbers :: "series \<Rightarrow> rat" where
  "sum_numbers xs = sum_list (List.map_filter number_of xs)"

definition group_size :: "series \<Rightarrow> aggregated" where
  "group_size keys = map (\<lambda>g. (fst g, of_nat (length (snd g)))) (groupby keys keys)"

definition group_count :: "series \<Rightarrow> series \<Rightarrow> aggregated" where
  "group_count keys xs =
     map (\<lambda>g. (fst g, of_nat (length (filter (\<lambda>c. c \<noteq> NA) (snd g))))) (groupby keys xs)"

definition group_sum :: "series \<Rightarrow> series \<Rightarrow> aggregated" where
  "group_sum keys xs = map (\<lambda>g. (fst g, sum_numbers (snd g))) (groupby keys xs)"

section \<open>The chart encoder: \<^verbatim>\<open>create_graph\<close>\<close>

text \<open>
  The image that \<^verbatim>\<open>create_graph\<close> returns is the result of the drawing calls; it is
  modelled by what they are given: the kind of plot, the labels of the x axis (the
  months as text, \<^verbatim>\<open>data.index.astype(str)\<close>), the values, the title and the axis
  labels. The drawing library is taken not to fail. \<open>None\<close> is Python's \<^verbatim>\<open>None\<close>.
\<close>

datatype plot_kind = Bar | Line

record chart =
  kind :: plot_kind
  x_ticks :: "string list"
  heights :: "rat list"
  chart_title :: string
  xlabel :: string
  ylabel :: string

definition period_str :: "period \<Rightarrow> string" where
  "period_str p = zero_pad 4 (fst p) @ ''-'' @ zero_pad 2 (snd p)"

definition create_graph :: "aggregated \<Rightarrow> string \<Rightarrow> string \<Rightarrow> string \<Rightarrow> string \<Rightarrow> chart option" where
  "create_graph data title x_label y_label graph_type =
     (if data = [] then None
      else Some \<lparr>kind = (if graph_type = ''bar'' then Bar else Line),
                 x_ticks = map (\<lambda>r. period_str (fst r)) data,
                 heights = map snd data,
                 chart_title = title, xlabel = x_label, ylabel = y_label\<rparr>)"

section \<open>The report: \<^verbatim>\<open>generate_report\<close>\<close>

text \<open>
  The document is the list of what was added to it, in order. \<^verbatim>\<open>doc.save\<close> is taken
  not to fail, and the buffer returned stands for this list.
\<close>

datatype doc_item = Heading string nat | Paragraph string | Picture chart nat

type_synonym document = "doc_item list"

text \<open>
  \<^verbatim>\<open>f"{x:.2f}"\<close>: two decimals, rounded to the nearest, a tie to the even neighbour, on the exact
  rational value.
\<close>

definition round_half_even :: "rat \<Rightarrow> int" where
  "round_half_even y =
     (if y - of_int \<lfloor>y\<rfloor> < 1 / 2 then \<lfloor>y\<rfloor>
      else if 1 / 2 < y - of_int \<lfloor>y\<rfloor> then \<lfloor>y\<rfloor> + 1
      else if even \<lfloor>y\<rfloor> then \<lfloor>y\<rfloor> else \<lfloor>y\<rfloor> + 1)"

definition fmt2 :: "rat \<Rightarrow> string" where
  "fmt2 x =
     (if x < 0 then ''-'' else []) @
     show_nat (nat (round_half_even (\<bar>x\<bar> * 100)) div 100) @ ''.'' @
     zero_pad 2 (nat (round_half_even (\<bar>x\<bar> * 100)) mod 100)"

text \<open>
  \<^verbatim>\<open>df[name].sum() if name in df else 0\<close>, as far as the formatting of the total: 0
  when the frame has no such column, the sum of the values that are not missing when it
  has one, and the \<^verbatim>\<open>TypeError\<close> of the formatting when it has several.
\<close>

definition column_total :: "data_frame \<Rightarrow> string \<Rightarrow> exn + rat" where
  "column_total df name =
     (if name \<in> set (col_names df)
      then bind_exn (get_col df no_format name) (\<lambda>values. Inr (sum_numbers values))
      else Inr 0)"

text \<open>
  The four aggregations, named as the script names them. The date column is read through
  \<^verbatim>\<open>.dt\<close>. In the frames that the normalizers return the value columns of the orders
  and of the hours are single where these lines are reached.
\<close>

definition products_per_month :: "data_frame \<Rightarrow> exn + aggregated" where
  "products_per_month products =
     bind_exn (get_col products (no_attribute ''dt'') ''Date Uploaded'') (\<lambda>dates.
     Inr (group_size dates))"

definition sales_per_month :: "data_frame \<Rightarrow> exn + aggregated" where
  "sales_per_month orders =
     bind_exn (get_col orders (no_attribute ''dt'') ''Date Of Purchase'') (\<lambda>dates.
     bind_exn (get_col orders not_one_dimensional ''eBay Price'') (\<lambda>values.
     Inr (group_count dates values)))"

definition profit_per_month :: "data_frame \<Rightarrow> exn + aggregated" where
  "profit_per_month orders =
     bind_exn (get_col orders (no_attribute ''dt'') ''Date Of Purchase'') (\<lambda>dates.
     bind_exn (get_col orders not_one_dimensional ''Profit Per Sale USD'') (\<lambda>values.
     Inr (group_sum dates values)))"

definition hours_per_month :: "data_frame \<Rightarrow> exn + aggregated" where
  "hours_per_month hours =
     bind_exn (get_col hours (no_attribute ''dt'') ''Date'') (\<lambda>dates.
     bind_exn (get_col hours not_one_dimensional ''Hours'') (\<lambda>values.
     Inr (group_sum dates values)))"

text \<open>\<^verbatim>\<open>if graph: doc.add_picture(graph, width=Inches(5))\<close>; a buffer is always true.\<close>

definition add_picture :: "document \<Rightarrow> chart option \<Rightarrow> document" where
  "add_picture doc graph = (case graph of None \<Rightarrow> doc | Some g \<Rightarrow> doc @ [Picture g 5])"

definition products_section :: "data_frame \<Rightarrow> document \<Rightarrow> exn + document" where
  "products_section products doc =
     (if \<not> frame_empty products then
        bind_exn (products_per_month products) (\<lambda>data.
        Inr (add_picture doc
               (create_graph data ''Products Uploaded per Month'' ''Month'' ''Number of Products'' ''bar'')))
      else Inr doc)"

definition orders_section :: "data_frame \<Rightarrow> document \<Rightarrow> exn + document" where
  "orders_section orders doc =
     (if \<not> frame_empty orders then
        bind_exn (sales_per_month orders) (\<lambda>data.
        bind_exn (Inr (add_picture doc
               (create_graph data ''Sales per Month'' ''Month'' ''Number of Sales'' ''bar''))) (\<lambda>doc.
        bind_exn (profit_per_month orders) (\<lambda>data.
        Inr (add_picture doc
               (create_graph data ''Profit per Month'' ''Month'' ''Profit ($)'' ''bar'')))))
      else Inr doc)"

definition hours_section :: "data_frame \<Rightarrow> document \<Rightarrow> exn + document" where
  "hours_section hours doc =
     (if \<not> frame_empty hours then
        bind_exn (hours_per_month hours) (\<lambda>data.
        Inr (add_picture doc
               (create_graph data ''Hours Worked per Month'' ''Month'' ''Hours'' ''bar'')))
      else Inr doc)"

definition generate_report :: "string \<Rightarrow> data_frame \<Rightarrow> data_frame \<Rightarrow> data_frame \<Rightarrow> exn + document" where
  "generate_report client_name products orders hours =
     bind_exn (column_total orders ''Total Sales'') (\<lambda>total_sales.
     bind_exn (column_total orders ''Total Profits'') (\<lambda>total_profit.
     bind_exn (column_total hours ''Hours'') (\<lambda>total_hours.
     bind_exn (Inr [Heading (''Report for '' @ client_name) 0,
                    Paragraph (''Total Sales: $'' @ fmt2 total_sales),
                    Paragraph (''Total Profit: $'' @ fmt2 total_profit),
                    Paragraph (''Total Hours Worked: '' @ fmt2 total_hours @ '' hours''),
                    Heading ''Graphs'' 1]) (\<lambda>doc.
     bind_exn (products_section products doc) (\<lambda>doc.
     bind_exn (orders_section orders doc) (\<lambda>doc.
     hours_section hours doc))))))"

section \<open>Events\<close>

text \<open>
  What the script shows and does to the outside is a list of events, in the order of the
  calls: a remote read of a worksheet, \<^verbatim>\<open>st.warning\<close>, \<^verbatim>\<open>time.sleep\<close>,
  \<^verbatim>\<open>st.write\<close>, \<^verbatim>\<open>st.error\<close> and \<^verbatim>\<open>st.download_button\<close> (label, data, file
  name, type). The front-end calls are taken as output only: they do not fail. A
  statement that can raise and emit events gives both: what it returns or raises, and
  the events up to there.
\<close>

datatype event =
    GetAllValues
  | StWarning string
  | TimeSleep int
  | StWrite string
  | StError string
  | StDownloadButton string document string string

type_synonym 'a action = "(exn + 'a) \<times> event list"

definition bind_io :: "'a action \<Rightarrow> ('a \<Rightarrow> 'b action) \<Rightarrow> 'b action" where
  "bind_io m f =
     (case fst m of
        Inl e \<Rightarrow> (Inl e, snd m)
      | Inr x \<Rightarrow> (fst (f x), snd m @ snd (f x)))"

definition quiet :: "exn + 'a \<Rightarrow> 'a action" where
  "quiet r = (r, [])"

section \<open>The fetcher: \<^verbatim>\<open>safe_fetch_worksheet\<close>\<close>

text \<open>
  A worksheet handle is the remote table seen through its reads: \<open>ws k\<close> is the outcome
  of the \<open>k\<close>-th call of \<^verbatim>\<open>worksheet.get_all_values()\<close> on the handle, counted
  from 0, either a grid or the exception the call raises.
\<close>

type_synonym worksheet = "nat \<Rightarrow> exn + raw_grid"

definition warning_text :: "exn \<Rightarrow> nat \<Rightarrow> string" where
  "warning_text e attempt = ''Retrying due to: '' @ str e @ ''. Attempt '' @ show_nat (attempt + 1)"

text \<open>
  \<^verbatim>\<open>time.sleep\<close> raises \<^verbatim>\<open>ValueError\<close> on a negative length. The call stands in the
  handler of the loop, so that raise leaves \<^verbatim>\<open>safe_fetch_worksheet\<close>.
\<close>

definition sleep_error :: exn where
  "sleep_error = Exn ValueError ''sleep length must be non-negative''"

text \<open>
  The loop \<^verbatim>\<open>for attempt in range(retries)\<close>, over the attempts still to make, with
  the current delay. The result is the value returned or the exception raised, and the
  events of the run.
\<close>

fun fetch_loop :: "worksheet \<Rightarrow> nat list \<Rightarrow> int \<Rightarrow> raw_grid action" where
  "fetch_loop ws [] delay = (Inr [], [])"
| "fetch_loop ws (attempt # rest) delay =
     (case ws attempt of
        Inr values \<Rightarrow> (Inr values, [GetAllValues])
      | Inl e \<Rightarrow>
          if delay < 0 then (Inl sleep_error, [GetAllValues, StWarning (warning_text e attempt)])
          else (case fetch_loop ws rest (delay * 2) of
                  (r, evs) \<Rightarrow>
                    (r, [GetAllValues, StWarning (warning_text e attempt), TimeSleep delay] @ evs)))"

definition safe_fetch_worksheet :: "worksheet \<Rightarrow> int \<Rightarrow> int \<Rightarrow> raw_grid action" where
  "safe_fetch_worksheet ws retries delay = fetch_loop ws [0..<nat retries] delay"

text \<open>The events of one failed attempt: the call, the warning, the sleep.\<close>

definition failed_attempt :: "worksheet \<Rightarrow> int \<Rightarrow> nat \<Rightarrow> event list" where
  "failed_attempt ws d k =
     [GetAllValues, StWarning (warning_text (projl (ws k)) k), TimeSleep (d * 2 ^ k)]"

section \<open>The fetch functions and the batch loop\<close>

text \<open>
  A spreadsheet is its title and its worksheets by name: \<^verbatim>\<open>sheet.worksheet(name)\<close>
  gives a handle or raises. The client is \<^verbatim>\<open>client.open_by_url\<close>: a spreadsheet or a
  raise for each link. What a link resolves to does not depend on the links before it.
\<close>

record spreadsheet =
  title :: string
  worksheet :: "string \<Rightarrow> exn + worksheet"

type_synonym client = "string \<Rightarrow> exn + spreadsheet"

definition fetch_products_data :: "spreadsheet \<Rightarrow> data_frame action" where
  "fetch_products_data sheet =
     bind_io (quiet (worksheet sheet ''PRODUCTS'')) (\<lambda>ws.
     bind_io (safe_fetch_worksheet ws 5 2) (\<lambda>raw_data.
     quiet (normalize_products raw_data)))"

definition fetch_orders_data :: "spreadsheet \<Rightarrow> data_frame action" where
  "fetch_orders_data sheet =
     bind_io (quiet (worksheet sheet ''ORDERS'')) (\<lambda>ws.
     bind_io (safe_fetch_worksheet ws 5 2) (\<lambda>raw_data.
     quiet (normalize_orders raw_data)))"

definition fetch_hours_data :: "spreadsheet \<Rightarrow> data_frame action" where
  "fetch_hours_data sheet =
     bind_io (quiet (worksheet sheet ''HOURSWORKED'')) (\<lambda>ws.
     bind_io (safe_fetch_worksheet ws 5 2) (\<lambda>raw_data.
     quiet (normalize_hours raw_data)))"

text \<open>
  The body of the \<^verbatim>\<open>try\<close> of the loop, from \<^verbatim>\<open>client.open_by_url\<close> to
  \<^verbatim>\<open>generate_report\<close>: the client name and the report, or the first raise.
\<close>

definition process_source :: "client \<Rightarrow> string \<Rightarrow> (string \<times> document) action" where
  "process_source client sheet_url =
     bind_io (quiet (client sheet_url)) (\<lambda>client_sheet.
     bind_io (fetch_products_data client_sheet) (\<lambda>products.
     bind_io (fetch_orders_data client_sheet) (\<lambda>orders.
     bind_io (fetch_hours_data client_sheet) (\<lambda>hours.
     bind_io (quiet (generate_report (title client_sheet) products orders hours)) (\<lambda>report_buffer.
     quiet (Inr (title client_sheet, report_buffer)))))))"

definition docx_mime :: string where
  "docx_mime = ''application/vnd.openxmlformats-officedocument.wordprocessingml.document''"

definition download_button :: "string \<Rightarrow> document \<Rightarrow> event" where
  "download_button client_name report_buffer =
     StDownloadButton (''Download '' @ client_name @ [CHR 0x27] @ ''s Report'') report_buffer
       (client_name @ ''_Report.docx'') docx_mime"

definition error_text :: "string \<Rightarrow> exn \<Rightarrow> string" where
  "error_text sheet_url e = ''Error processing link '' @ sheet_url @ '': '' @ str e"

text \<open>
  What one link leaves as its result: the download of its report, or the error with the
  link and the text of the exception (\<^verbatim>\<open>except Exception as e\<close>).
\<close>

definition batch_result :: "client \<Rightarrow> string \<Rightarrow> event" where
  "batch_result client sheet_url =
     (case fst (process_source client sheet_url) of
        Inl e \<Rightarrow> StError (error_text sheet_url e)
      | Inr r \<Rightarrow> download_button (fst r) (snd r))"










section \<open>Grids that a normalizer accepts\<close>

text \<open>
  The source columns that each normalizer reads by name. A grid is well formed for a list
  of names when its longest data row is as wide as its header and each of the names
  labels exactly one column of the header.
\<close>

definition products_source :: "string list" where
  "products_source = [''Date Uploaded:'', ''eBay Price'', ''Profit Per Product Present'']"

definition orders_source :: "string list" where
  "orders_source =
     [''Date Of Purchase'', ''eBay Price'', ''Profit Per Sale USD'', ''Total Sales'', ''Total Profits'']"

definition hours_source :: "string list" where
  "hours_source = [''Date:'', ''Hours:'']"

definition well_formed :: "string list \<Rightarrow> raw_grid \<Rightarrow> bool" where
  "well_formed names g =
     (data_width (tl g) = length (hd g) \<and> list_all (\<lambda>n. count_list (hd g) n = 1) names)"

text \<open>The cells of the grid under a label of the header: one for each data row.\<close>

definition column_index :: "string list \<Rightarrow> string \<Rightarrow> nat" where
  "column_index header name = length (takeWhile (\<lambda>h. h \<noteq> name) header)"

definition raw_column :: "raw_grid \<Rightarrow> string \<Rightarrow> series" where
  "raw_column g name = map (\<lambda>row. cell_at row (column_index (hd g) name)) (tl g)"

text \<open>A frame keeps its rows when every column has one cell for each row.\<close>

definition frame_ok :: "data_frame \<Rightarrow> bool" where
  "frame_ok df = (\<forall>c \<in> set (cols df). length (snd c) = nrows df)"

text \<open>The columns of a frame that carry a label.\<close>

definition labelled :: "data_frame \<Rightarrow> string \<Rightarrow> (string \<times> series) list" where
  "labelled df n = filter (\<lambda>c. fst c = n) (cols df)"

text \<open>The rows of a table, as pairs of the date and a value, whose date is not missing.\<close>

definition present_rows :: "series \<Rightarrow> 'a list \<Rightarrow> (cell \<times> 'a) list" where
  "present_rows keys xs = filter (\<lambda>row. period_of (fst row) \<noteq> None) (zip keys xs)"

section \<open>The charts of a report\<close>

text \<open>
  The pictures of a document, in order; the five items that \<^verbatim>\<open>generate_report\<close> adds
  before any picture; and the chart of one aggregation over one table: none when the
  table is empty, for then the script does not run the aggregation, and otherwise what
  \<^verbatim>\<open>create_graph\<close> returns for the aggregated series.
\<close>

fun chart_in :: "doc_item \<Rightarrow> chart option" where
  "chart_in (Picture c w) = Some c"
| "chart_in item = None"

definition charts :: "document \<Rightarrow> chart list" where
  "charts doc = List.map_filter chart_in doc"


definition summary :: "string \<Rightarrow> rat \<Rightarrow> rat \<Rightarrow> rat \<Rightarrow> document" where
  "summary client_name total_sales total_profit total_hours =
     [Heading (''Report for '' @ client_name) 0,
      Paragraph (''Total Sales: $'' @ fmt2 total_sales),
      Paragraph (''Total Profit: $'' @ fmt2 total_profit),
      Paragraph (''Total Hours Worked: '' @ fmt2 total_hours @ '' hours''),
      Heading ''Graphs'' 1]"

text \<open>
  What a fetch function has as \<^verbatim>\<open>raw_data\<close>: the grid that the worksheet of that name
  gives through \<^verbatim>\<open>safe_fetch_worksheet\<close>, or the raise of \<^verbatim>\<open>sheet.worksheet\<close>.
\<close>

definition raw_data_of :: "spreadsheet \<Rightarrow> string \<Rightarrow> exn + raw_grid" where
  "raw_data_of sheet name =
     fst (bind_io (quiet (worksheet sheet name)) (\<lambda>ws. safe_fetch_worksheet ws 5 2))"

section \<open>Properties of the fetcher\<close>

lemma fetch_loop_all_fail:
  assumes "\<forall>k. isl (ws k)" and "0 \<le> d"
  shows "fetch_loop ws [a..<a + n] d =
     (Inr [], concat (map (\<lambda>i. [GetAllValues, StWarning (warning_text (projl (ws (a + i))) (a + i)),
                                  TimeSleep (d * 2 ^ i)]) [0..<n]))"
  using assms(2)
proof (induction n arbitrary: a d)
  case 0
  then show ?case by simp
next
  case (Suc n)
  from assms(1) obtain e where e: "ws a = Inl e"
    by (cases "ws a") (auto dest: spec [of _ a])
  have d2: "0 \<le> d * 2"
    using Suc.prems by simp
  have l: "[a..<a + Suc n] = a # [Suc a..<Suc a + n]"
    by (simp add: upt_conv_Cons)
  have r: "[0..<Suc n] = 0 # map Suc [0..<n]"
    by (simp add: upt_conv_Cons map_Suc_upt del: upt_Suc)
  show ?case
    unfolding l r
    using Suc.IH [OF d2, of "Suc a"] Suc.prems e
    by (simp add: comp_def mult.assoc)
qed

text \<open>
  Claim C3. When every call of \<^verbatim>\<open>get_all_values\<close> fails, \<^verbatim>\<open>safe_fetch_worksheet\<close>
  with \<open>retries = r\<close> and a delay \<open>d\<close> that is not negative makes exactly \<open>r\<close> attempts
  (none for a negative \<open>r\<close>); each attempt is the remote call, then a warning, then a
  sleep, and the sleep after attempt \<open>k\<close>, counted from 0, lasts \<open>d * 2 ^ k\<close>: \<open>d\<close>,
  \<open>2d\<close>, \<open>4d\<close>, and so on, the last attempt included. Then the function returns the
  empty grid and raises nothing.
\<close>

theorem safe_fetch_worksheet_exhausted:
  assumes "\<forall>k. isl (ws k)" and "0 \<le> d"
  shows "safe_fetch_worksheet ws r d = (Inr [], concat (map (failed_attempt ws d) [0..<nat r]))"
proof -
  have "fetch_loop ws [0..<0 + nat r] d =
      (Inr [], concat (map (\<lambda>i. [GetAllValues, StWarning (warning_text (projl (ws (0 + i))) (0 + i)),
                                   TimeSleep (d * 2 ^ i)]) [0..<nat r]))"
    by (rule fetch_loop_all_fail [OF assms])
  moreover have "failed_attempt ws d =
      (\<lambda>i. [GetAllValues, StWarning (warning_text (projl (ws i)) i), TimeSleep (d * 2 ^ i)])"
    by (rule ext) (simp add: failed_attempt_def)
  ultimately show ?thesis
    by (simp add: safe_fetch_worksheet_def)
qed

theorem safe_fetch_worksheet_exhausted_witness:
  "(\<forall>k. isl ((\<lambda>k. Inl (Exn RemoteError ''quota'')) k :: exn + raw_grid)) \<and> (0::int) \<le> 2 \<and>
   safe_fetch_worksheet (\<lambda>k. Inl (Exn RemoteError ''quota'')) 3 2 =
     (Inr [],
      [GetAllValues, StWarning ''Retrying due to: quota. Attempt 1'', TimeSleep 2,
       GetAllValues, StWarning ''Retrying due to: quota. Attempt 2'', TimeSleep 4,
       GetAllValues, StWarning ''Retrying due to: quota. Attempt 3'', TimeSleep 8])"
proof -
  have three: "[0..<3] = [0, Suc 0, Suc (Suc 0)]"
    by (simp add: numeral_3_eq_3)
  show ?thesis
    using safe_fetch_worksheet_exhausted [of "\<lambda>k. Inl (Exn RemoteError ''quota'')" 2 3]
    by (simp add: three failed_attempt_def warning_text_def show_nat.simps digit_char_def)
qed


section \<open>Properties of data frames and normalizers\<close>

lemma bind_exn_Inr_iff:
  "bind_exn r f = Inr y \<longleftrightarrow> (\<exists>x. r = Inr x \<and> f x = Inr y)"
  by (cases r) (simp_all add: bind_exn_def)

lemma bind_exn_Inl [simp]: "bind_exn (Inl e) f = Inl e"
  by (simp add: bind_exn_def)

lemma bind_exn_Inr [simp]: "bind_exn (Inr x) f = f x"
  by (simp add: bind_exn_def)

lemma filter_label_length:
  "length (filter (\<lambda>c. fst c = n) cs) = count_list (map fst cs) n"
  by (induction cs) auto

lemma get_col_Inr_iff:
  "(\<exists>s. get_col df e n = Inr s) \<longleftrightarrow> count_list (col_names df) n = 1"
proof -
  have "length (filter (\<lambda>c. fst c = n) (cols df)) = count_list (col_names df) n"
    by (simp add: filter_label_length col_names_def)
  then show ?thesis
    by (cases "filter (\<lambda>c. fst c = n) (cols df)" rule: list.exhaust [case_product list.exhaust])
       (auto simp: get_col_def split: list.splits)
qed

lemma DataFrame_Inr:
  "DataFrame data hdr = Inr df \<Longrightarrow> nrows df = length data \<and> frame_ok df \<and> col_names df = hdr"
  by (auto simp: DataFrame_def frame_ok_def col_names_def comp_def map_nth split: if_splits)

lemma get_col_labelled:
  "get_col df e n = (case labelled df n of [] \<Rightarrow> Inl (key_error n) | [c] \<Rightarrow> Inr (snd c) | _ \<Rightarrow> Inl e)"
  by (simp add: get_col_def labelled_def)

lemma length_labelled: "length (labelled df n) = count_list (col_names df) n"
  by (simp add: labelled_def filter_label_length col_names_def)

lemma filter_relabel_same:
  "filter (\<lambda>c. fst c = m) (map (\<lambda>c. if fst c = m then (m, v) else c) cs)
     = replicate (length (filter (\<lambda>c. fst c = m) cs)) (m, v)"
  by (induction cs) auto

lemma filter_relabel_other:
  "n \<noteq> m \<Longrightarrow> filter (\<lambda>c. fst c = n) (map (\<lambda>c. if fst c = m then (m, v) else c) cs)
     = filter (\<lambda>c. fst c = n) cs"
  by (induction cs) auto

lemma labelled_set_col_same:
  "labelled (set_col df m v) m = replicate (max 1 (count_list (col_names df) m)) (m, v)"
proof (cases "m \<in> set (col_names df)")
  case True
  then have "0 < count_list (col_names df) m"
    using count_list_0_iff [of "col_names df" m] by auto
  then have "max 1 (count_list (col_names df) m) = count_list (col_names df) m" by simp
  with True show ?thesis
    by (simp add: labelled_def set_col_def filter_relabel_same filter_label_length col_names_def)
next
  case False
  then have z: "count_list (col_names df) m = 0"
    by (simp add: count_list_0_iff)
  from False have "filter (\<lambda>c. fst c = m) (cols df) = []"
    by (auto simp: col_names_def filter_empty_conv)
  with False z show ?thesis
    by (simp add: labelled_def set_col_def)
qed

lemma labelled_set_col_other:
  "n \<noteq> m \<Longrightarrow> labelled (set_col df m v) n = labelled df n"
  by (simp add: labelled_def set_col_def filter_relabel_other)

lemma nrows_set_col [simp]: "nrows (set_col df m v) = nrows df"
  by (simp add: set_col_def)

lemma count_set_col:
  "count_list (col_names (set_col df m v)) n = (if n = m then max 1 (count_list (col_names df) m) else count_list (col_names df) n)"
proof (cases "n = m")
  case True
  have "length (labelled (set_col df m v) m) = max 1 (count_list (col_names df) m)"
    by (simp only: labelled_set_col_same length_replicate)
  with True show ?thesis
    by (simp add: length_labelled)
next
  case False
  have "length (labelled (set_col df m v) n) = length (labelled df n)"
    by (simp only: labelled_set_col_other [OF False])
  with False show ?thesis
    by (simp add: length_labelled)
qed

lemma filter_index_none:
  "n \<notin> set hs \<Longrightarrow> filter (\<lambda>j. hs ! j = n) [0..<length hs] = []"
  by (auto simp: filter_empty_conv)

lemma filter_index_unique:
  "count_list hs n = 1 \<Longrightarrow> filter (\<lambda>j. hs ! j = n) [0..<length hs] = [column_index hs n]"
proof (induction hs)
  case Nil
  then show ?case by simp
next
  case (Cons h hs)
  have up: "[0..<length (x # hs)] = 0 # map Suc [0..<length hs]" for x
    by (simp add: upt_conv_Cons map_Suc_upt del: upt_Suc)
  have shift: "filter (\<lambda>j. (x # hs) ! j = n) (map Suc [0..<length hs]) = map Suc (filter (\<lambda>j. hs ! j = n) [0..<length hs])" for x
    by (simp add: filter_map comp_def)
  show ?case
  proof (cases "h = n")
    case True
    with Cons.prems have "n \<notin> set hs"
      using count_list_0_iff [of hs n] by simp
    then have e: "filter (\<lambda>j. hs ! j = n) [0..<length hs] = []"
      by (rule filter_index_none)
    show ?thesis
      unfolding up using True by (simp add: shift e column_index_def)
  next
    case False
    with Cons.prems have "count_list hs n = 1" by simp
    from Cons.IH [OF this] show ?thesis
      unfolding up using False by (simp add: shift column_index_def)
  qed
qed

lemma labelled_DataFrame:
  assumes "DataFrame data hdr = Inr df" and "count_list hdr n = 1"
  shows "labelled df n = [(n, map (\<lambda>row. cell_at row (column_index hdr n)) data)]"
proof -
  from assms(1) have c: "cols df = map (\<lambda>j. (hdr ! j, map (\<lambda>row. cell_at row j) data)) [0..<length hdr]"
    by (auto simp: DataFrame_def split: if_splits)
  have "labelled df n = map (\<lambda>j. (hdr ! j, map (\<lambda>row. cell_at row j) data)) (filter (\<lambda>j. hdr ! j = n) [0..<length hdr])"
    by (simp add: labelled_def c filter_map comp_def)
  also have "\<dots> = [(hdr ! column_index hdr n, map (\<lambda>row. cell_at row (column_index hdr n)) data)]"
    by (simp add: filter_index_unique [OF assms(2)])
  finally have l: "labelled df n = [(hdr ! column_index hdr n, map (\<lambda>row. cell_at row (column_index hdr n)) data)]" .
  then have "(hdr ! column_index hdr n, map (\<lambda>row. cell_at row (column_index hdr n)) data) \<in> set (labelled df n)"
    by simp
  then have "hdr ! column_index hdr n = n"
    by (simp add: labelled_def)
  with l show ?thesis by simp
qed

lemma select_cols_labelled:
  "set ns \<subseteq> set (col_names df) \<Longrightarrow>
   select_cols df ns = Inr \<lparr>nrows = nrows df, cols = concat (map (labelled df) ns)\<rparr>"
proof -
  assume "set ns \<subseteq> set (col_names df)"
  then have "filter (\<lambda>n. n \<notin> set (col_names df)) ns = []"
    by (auto simp: filter_empty_conv)
  moreover have "labelled df = (\<lambda>n. filter (\<lambda>c. fst c = n) (cols df))"
    by (rule ext) (simp add: labelled_def)
  ultimately show ?thesis
    by (simp add: select_cols_def)
qed

lemma in_names_iff: "n \<in> set (col_names df) \<longleftrightarrow> 0 < count_list (col_names df) n"
  using count_list_0_iff [of "col_names df" n] by auto

lemma normalize_products_eq:
  assumes "2 \<le> length g" and "data_width (tl g) = length (hd g)"
    and "count_list (hd g) ''Date Uploaded:'' = 1"
    and "count_list (hd g) ''eBay Price'' = 1"
    and "count_list (hd g) ''Profit Per Product Present'' = 1"
  shows "normalize_products g = Inr \<lparr>nrows = length g - 1,
     cols = replicate (max 1 (count_list (hd g) ''Date Uploaded''))
               (''Date Uploaded'', map coerce_date (raw_column g ''Date Uploaded:'')) @
            [(''eBay Price'', map coerce_currency (raw_column g ''eBay Price'')),
             (''Profit Per Product Present'', map coerce_percent (raw_column g ''Profit Per Product Present''))]\<rparr>"
proof -
  obtain df0 where 0: "DataFrame (tl g) (hd g) = Inr df0"
    using assms(2) by (auto simp: DataFrame_def)
  from DataFrame_Inr [OF 0] have n0: "nrows df0 = length g - 1" "col_names df0 = hd g" by auto
  note l0 = labelled_DataFrame [OF 0]
  have many: "Suc 0 < length g"
    using assms(1) by simp
  show ?thesis
    by (simp add: many normalize_products_def 0 assign_col_def date_col_def currency_col_def percent_col_def
        get_col_labelled labelled_set_col_other labelled_set_col_same l0 assms n0 raw_column_def
        select_cols_labelled in_names_iff count_set_col)
qed

lemma normalize_orders_eq:
  assumes "2 \<le> length g" and "data_width (tl g) = length (hd g)"
    and "count_list (hd g) ''Date Of Purchase'' = 1"
    and "count_list (hd g) ''eBay Price'' = 1"
    and "count_list (hd g) ''Profit Per Sale USD'' = 1"
    and "count_list (hd g) ''Total Sales'' = 1"
    and "count_list (hd g) ''Total Profits'' = 1"
  shows "normalize_orders g = Inr \<lparr>nrows = length g - 1,
     cols = [(''Date Of Purchase'', map coerce_date (raw_column g ''Date Of Purchase'')),
             (''eBay Price'', map coerce_currency (raw_column g ''eBay Price'')),
             (''Profit Per Sale USD'', map coerce_currency (raw_column g ''Profit Per Sale USD'')),
             (''Total Sales'', map coerce_currency (raw_column g ''Total Sales'')),
             (''Total Profits'', map coerce_currency (raw_column g ''Total Profits''))]\<rparr>"
proof -
  obtain df0 where 0: "DataFrame (tl g) (hd g) = Inr df0"
    using assms(2) by (auto simp: DataFrame_def)
  from DataFrame_Inr [OF 0] have n0: "nrows df0 = length g - 1" "col_names df0 = hd g" by auto
  note l0 = labelled_DataFrame [OF 0]
  have many: "Suc 0 < length g"
    using assms(1) by simp
  show ?thesis
    by (simp add: many normalize_orders_def 0 assign_col_def date_col_def currency_col_def
        get_col_labelled labelled_set_col_other labelled_set_col_same l0 assms n0 raw_column_def
        select_cols_labelled in_names_iff count_set_col)
qed

lemma normalize_hours_eq:
  assumes "2 \<le> length g" and "data_width (tl g) = length (hd g)"
    and "count_list (hd g) ''Date:'' = 1"
    and "count_list (hd g) ''Hours:'' = 1"
  shows "normalize_hours g = Inr \<lparr>nrows = length g - 1,
     cols = replicate (max 1 (count_list (hd g) ''Date'')) (''Date'', map coerce_date (raw_column g ''Date:'')) @
            replicate (max 1 (count_list (hd g) ''Hours'')) (''Hours'', map coerce_number (raw_column g ''Hours:''))\<rparr>"
proof -
  obtain df0 where 0: "DataFrame (tl g) (hd g) = Inr df0"
    using assms(2) by (auto simp: DataFrame_def)
  from DataFrame_Inr [OF 0] have n0: "nrows df0 = length g - 1" "col_names df0 = hd g" by auto
  note l0 = labelled_DataFrame [OF 0]
  have many: "Suc 0 < length g"
    using assms(1) by simp
  have sub: "set [''Date'', ''Hours''] \<subseteq> set (col_names (set_col (set_col df0 ''Date'' a) ''Hours'' b))" for a b
    by (simp add: in_names_iff count_set_col less_max_iff_disj)
  show ?thesis
    by (simp add: many normalize_hours_def 0 assign_col_def date_col_def number_col_def
        get_col_labelled labelled_set_col_other labelled_set_col_same l0 assms n0 raw_column_def
        select_cols_labelled [OF sub] count_set_col)
qed

lemma get_col_count: "get_col df e n = Inr s \<Longrightarrow> count_list (col_names df) n = 1"
  using get_col_Inr_iff [of df e n] by auto

lemma typed_col_count:
  "date_col df n = Inr s \<Longrightarrow> count_list (col_names df) n = 1"
  "currency_col df n = Inr s \<Longrightarrow> count_list (col_names df) n = 1"
  "percent_col df n = Inr s \<Longrightarrow> count_list (col_names df) n = 1"
  "number_col df n = Inr s \<Longrightarrow> count_list (col_names df) n = 1"
  by (auto simp: date_col_def currency_col_def percent_col_def number_col_def map_sum_def
      split: sum.splits dest: get_col_count)

lemma assign_col_Inr:
  "assign_col t rhs df = Inr df' \<Longrightarrow> \<exists>v. rhs df = Inr v \<and> df' = set_col df t v"
  by (auto simp: assign_col_def bind_exn_Inr_iff)

lemma DataFrame_width: "DataFrame data hdr = Inr df \<Longrightarrow> data_width data = length hdr"
  by (auto simp: DataFrame_def split: if_splits)

lemma normalize_products_returns:
  assumes "2 \<le> length g" and "normalize_products g = Inr t"
  shows "well_formed products_source g"
proof -
  from assms obtain df0 df1 df2 df3 where
    0: "DataFrame (tl g) (hd g) = Inr df0" and
    1: "assign_col ''Date Uploaded'' (\<lambda>df. date_col df ''Date Uploaded:'') df0 = Inr df1" and
    2: "assign_col ''eBay Price'' (\<lambda>df. currency_col df ''eBay Price'') df1 = Inr df2" and
    3: "assign_col ''Profit Per Product Present'' (\<lambda>df. percent_col df ''Profit Per Product Present'') df2 = Inr df3"
    by (auto simp: normalize_products_def bind_exn_Inr_iff)
  from DataFrame_Inr [OF 0] have n0: "col_names df0 = hd g" by simp
  from assign_col_Inr [OF 1] obtain v1 where
    v1: "date_col df0 ''Date Uploaded:'' = Inr v1" "df1 = set_col df0 ''Date Uploaded'' v1" by auto
  from assign_col_Inr [OF 2] obtain v2 where
    v2: "currency_col df1 ''eBay Price'' = Inr v2" "df2 = set_col df1 ''eBay Price'' v2" by auto
  from assign_col_Inr [OF 3] obtain v3 where
    v3: "percent_col df2 ''Profit Per Product Present'' = Inr v3" by auto
  from typed_col_count(1) [OF v1(1)] typed_col_count(2) [OF v2(1)] typed_col_count(3) [OF v3]
  show ?thesis
    using DataFrame_width [OF 0]
    by (simp add: well_formed_def products_source_def v1(2) v2(2) count_set_col n0)
qed

lemma normalize_orders_returns:
  assumes "2 \<le> length g" and "normalize_orders g = Inr t"
  shows "well_formed orders_source g"
proof -
  from assms obtain df0 df1 df2 df3 df4 df5 where
    0: "DataFrame (tl g) (hd g) = Inr df0" and
    1: "assign_col ''Date Of Purchase'' (\<lambda>df. date_col df ''Date Of Purchase'') df0 = Inr df1" and
    2: "assign_col ''eBay Price'' (\<lambda>df. currency_col df ''eBay Price'') df1 = Inr df2" and
    3: "assign_col ''Profit Per Sale USD'' (\<lambda>df. currency_col df ''Profit Per Sale USD'') df2 = Inr df3" and
    4: "assign_col ''Total Sales'' (\<lambda>df. currency_col df ''Total Sales'') df3 = Inr df4" and
    5: "assign_col ''Total Profits'' (\<lambda>df. currency_col df ''Total Profits'') df4 = Inr df5"
    by (auto simp: normalize_orders_def bind_exn_Inr_iff)
  from DataFrame_Inr [OF 0] have n0: "col_names df0 = hd g" by simp
  from assign_col_Inr [OF 1] obtain v1 where
    v1: "date_col df0 ''Date Of Purchase'' = Inr v1" "df1 = set_col df0 ''Date Of Purchase'' v1" by auto
  from assign_col_Inr [OF 2] obtain v2 where
    v2: "currency_col df1 ''eBay Price'' = Inr v2" "df2 = set_col df1 ''eBay Price'' v2" by auto
  from assign_col_Inr [OF 3] obtain v3 where
    v3: "currency_col df2 ''Profit Per Sale USD'' = Inr v3" "df3 = set_col df2 ''Profit Per Sale USD'' v3" by auto
  from assign_col_Inr [OF 4] obtain v4 where
    v4: "currency_col df3 ''Total Sales'' = Inr v4" "df4 = set_col df3 ''Total Sales'' v4" by auto
  from assign_col_Inr [OF 5] obtain v5 where
    v5: "currency_col df4 ''Total Profits'' = Inr v5" by auto
  from typed_col_count(1) [OF v1(1)] typed_col_count(2) [OF v2(1)] typed_col_count(2) [OF v3(1)]
    typed_col_count(2) [OF v4(1)] typed_col_count(2) [OF v5]
  show ?thesis
    using DataFrame_width [OF 0]
    by (simp add: well_formed_def orders_source_def v1(2) v2(2) v3(2) v4(2) count_set_col n0)
qed

lemma normalize_hours_returns:
  assumes "2 \<le> length g" and "normalize_hours g = Inr t"
  shows "well_formed hours_source g"
proof -
  from assms obtain df0 df1 df2 where
    0: "DataFrame (tl g) (hd g) = Inr df0" and
    1: "assign_col ''Date'' (\<lambda>df. date_col df ''Date:'') df0 = Inr df1" and
    2: "assign_col ''Hours'' (\<lambda>df. number_col df ''Hours:'') df1 = Inr df2"
    by (auto simp: normalize_hours_def bind_exn_Inr_iff)
  from DataFrame_Inr [OF 0] have n0: "col_names df0 = hd g" by simp
  from assign_col_Inr [OF 1] obtain v1 where
    v1: "date_col df0 ''Date:'' = Inr v1" "df1 = set_col df0 ''Date'' v1" by auto
  from assign_col_Inr [OF 2] obtain v2 where
    v2: "number_col df1 ''Hours:'' = Inr v2" by auto
  from typed_col_count(1) [OF v1(1)] typed_col_count(4) [OF v2]
  show ?thesis
    using DataFrame_width [OF 0]
    by (simp add: well_formed_def hours_source_def v1(2) count_set_col n0)
qed

lemma normalize_orders_rows:
  assumes "2 \<le> length g" and "normalize_orders g = Inr t"
  shows "nrows t = length g - 1 \<and> frame_ok t"
  using normalize_orders_eq [OF assms(1)] normalize_orders_returns [OF assms] assms(2)
  by (auto simp: well_formed_def orders_source_def frame_ok_def raw_column_def)

lemma normalize_hours_rows:
  assumes "2 \<le> length g" and "normalize_hours g = Inr t"
  shows "nrows t = length g - 1 \<and> frame_ok t"
  using normalize_hours_eq [OF assms(1)] normalize_hours_returns [OF assms] assms(2)
  by (auto simp: well_formed_def hours_source_def frame_ok_def raw_column_def)

lemma normalize_products_rows:
  assumes "2 \<le> length g" and "normalize_products g = Inr t"
  shows "nrows t = length g - 1 \<and> frame_ok t"
  using normalize_products_eq [OF assms(1)] normalize_products_returns [OF assms] assms(2)
  by (auto simp: well_formed_def products_source_def frame_ok_def raw_column_def)


section \<open>Claims about the normalizers\<close>

lemma normalize_short:
  assumes "length g < 2"
  shows "normalize_products g = Inr empty_frame"
    and "normalize_orders g = Inr empty_frame"
    and "normalize_hours g = Inr empty_frame"
  using assms
  by (simp_all add: normalize_products_def normalize_orders_def normalize_hours_def)

text \<open>
  Claim C2, as the script has it. For a grid with fewer than 2 rows each of the three
  normalizers returns \<^verbatim>\<open>pd.DataFrame()\<close>: the frame with no row and with no column at
  all, so none of the target columns of the schema is in it.
\<close>

theorem normalize_short_grid_empty_frame:
  assumes "length g < 2"
  shows "normalize_products g = Inr empty_frame \<and> normalize_orders g = Inr empty_frame \<and>
         normalize_hours g = Inr empty_frame \<and> nrows empty_frame = 0 \<and> col_names empty_frame = []"
  using normalize_short [OF assms]
  by (simp add: empty_frame_def col_names_def)

theorem normalize_short_grid_empty_frame_witness:
  "length [[''Date Uploaded:'', ''eBay Price'', ''Profit Per Product Present'']] < 2 \<and>
   normalize_products [[''Date Uploaded:'', ''eBay Price'', ''Profit Per Product Present'']] = Inr empty_frame \<and>
   normalize_orders [[''Date Uploaded:'', ''eBay Price'', ''Profit Per Product Present'']] = Inr empty_frame \<and>
   normalize_hours [[''Date Uploaded:'', ''eBay Price'', ''Profit Per Product Present'']] = Inr empty_frame \<and>
   nrows empty_frame = 0 \<and> col_names empty_frame = []"
  using normalize_short_grid_empty_frame
          [of "[[''Date Uploaded:'', ''eBay Price'', ''Profit Per Product Present'']]"]
  by simp

text \<open>
  The claim as it was stated fails: on the header-only grid that names every source
  column, the listings normalizer returns a frame in which the target column
  \<^verbatim>\<open>Date Uploaded\<close> is not present.
\<close>

theorem normalize_short_grid_no_columns:
  "normalize_products [[''Date Uploaded:'', ''eBay Price'', ''Profit Per Product Present'']] = Inr empty_frame \<and>
   ''Date Uploaded'' \<notin> set (col_names empty_frame) \<and>
   ''eBay Price'' \<notin> set (col_names empty_frame) \<and>
   ''Profit Per Product Present'' \<notin> set (col_names empty_frame)"
  by (simp add: normalize_products_def empty_frame_def col_names_def)

text \<open>
  Claim C10. With fewer than 2 rows a normalizer returns without looking at the header:
  any two such grids give the same result, and nothing is raised. So a normalizer can
  raise, for a missing column or for anything else, only on a grid with a data row.
\<close>

theorem short_grid_header_not_inspected:
  "(length g < 2 \<and> length g' < 2 \<longrightarrow>
      normalize_products g = normalize_products g' \<and> \<not> isl (normalize_products g) \<and>
      normalize_orders g = normalize_orders g' \<and> \<not> isl (normalize_orders g) \<and>
      normalize_hours g = normalize_hours g' \<and> \<not> isl (normalize_hours g)) \<and>
   (isl (normalize_products g) \<or> isl (normalize_orders g) \<or> isl (normalize_hours g) \<longrightarrow>
      2 \<le> length g)"
proof -
  have "2 \<le> length g" if "isl (normalize_products g) \<or> isl (normalize_orders g) \<or> isl (normalize_hours g)"
  proof (rule ccontr)
    assume "\<not> 2 \<le> length g"
    then have "length g < 2" by simp
    from normalize_short [OF this] that show False by simp
  qed
  then show ?thesis
    by (auto simp: normalize_short)
qed

theorem short_grid_header_not_inspected_witness:
  "length [[''no such column'']] < 2 \<and> length ([] :: raw_grid) < 2 \<and>
   normalize_products [[''no such column'']] = normalize_products [] \<and>
   \<not> isl (normalize_products [[''no such column'']]) \<and>
   normalize_orders [[''no such column'']] = normalize_orders [] \<and>
   \<not> isl (normalize_orders [[''no such column'']]) \<and>
   normalize_hours [[''no such column'']] = normalize_hours [] \<and>
   \<not> isl (normalize_hours [[''no such column'']]) \<and>
   isl (normalize_products [[''no such column''], [''1'']]) \<and>
   2 \<le> length [[''no such column''], [''1'']]"
proof -
  have raised: "isl (normalize_products [[''no such column''], [''1'']])"
    by (simp add: normalize_products_def DataFrame_def data_width_def assign_col_def date_col_def
        get_col_def)
  have short: "length [[''no such column'']] < 2 \<and> length ([] :: raw_grid) < 2"
    by simp
  have same: "normalize_products [[''no such column'']] = normalize_products [] \<and>
      \<not> isl (normalize_products [[''no such column'']]) \<and>
      normalize_orders [[''no such column'']] = normalize_orders [] \<and>
      \<not> isl (normalize_orders [[''no such column'']]) \<and>
      normalize_hours [[''no such column'']] = normalize_hours [] \<and>
      \<not> isl (normalize_hours [[''no such column'']])"
    using short_grid_header_not_inspected [of "[[''no such column'']]" "[]"] short
    by blast
  have long: "2 \<le> length [[''no such column''], [''1'']]"
    using short_grid_header_not_inspected [of "[[''no such column''], [''1'']]" "[]"] raised
    by blast
  show ?thesis
    using short same raised long by blast
qed

lemmas reader_defs = to_numeric_def read_sign_def read_fraction_def read_exponent_def is_digit_def
  is_space_def digits_val_def digit_val_def scale10_def to_datetime_def read_day_def read_month_def
  read_year_def days_in_month_def leap_year_def in_timestamp_range_def

lemmas coerce_defs = coerce_currency_def coerce_percent_def coerce_number_def coerce_date_def
  str_delete_def divide_by_def not_digit_or_point_def is_percent_def

lemma typed_or_missing:
  "coerce_date c = NA \<or> (\<exists>d. coerce_date c = Date d)"
  "coerce_number c = NA \<or> (\<exists>x. coerce_number c = Number x)"
  "coerce_currency c = NA \<or> (\<exists>x. coerce_currency c = Number x)"
  "coerce_percent c = NA \<or> (\<exists>x. coerce_percent c = Number x)"
proof -
  have d: "coerce_date x = NA \<or> (\<exists>d. coerce_date x = Date d)" for x
    by (cases x) (simp_all add: coerce_date_def split: option.splits)
  have n: "coerce_number x = NA \<or> (\<exists>y. coerce_number x = Number y)" for x
    by (cases x) (simp_all add: coerce_number_def split: option.splits)
  show "coerce_date c = NA \<or> (\<exists>d. coerce_date c = Date d)"
    by (rule d)
  show "coerce_number c = NA \<or> (\<exists>x. coerce_number c = Number x)"
    by (rule n)
  show "coerce_currency c = NA \<or> (\<exists>x. coerce_currency c = Number x)"
    unfolding coerce_currency_def by (rule n)
  show "coerce_percent c = NA \<or> (\<exists>x. coerce_percent c = Number x)"
    using n [of "str_delete is_percent c"]
  proof
    assume "coerce_number (str_delete is_percent c) = NA"
    then have "coerce_percent c = NA"
      by (simp add: coerce_percent_def divide_by_def)
    then show ?thesis ..
  next
    assume "\<exists>y. coerce_number (str_delete is_percent c) = Number y"
    then obtain y where "coerce_number (str_delete is_percent c) = Number y" ..
    then have "coerce_percent c = Number (y / 100)"
      by (simp add: coerce_percent_def divide_by_def)
    then have "\<exists>x. coerce_percent c = Number x" ..
    then show ?thesis ..
  qed
qed

text \<open>
  Claim C5, as the script has it. A grid with at least 2 rows is valid for a normalizer
  when it is well formed for the source columns that the normalizer reads. On a valid
  grid the normalizer returns the typed frame: it has one row for each data row of the
  grid, and each of its columns is the coercion, cell by cell, of the source column, so
  it has a cell for every data row, and that cell is a date or a number, or missing when
  the text cannot be coerced: no row is dropped. On a grid that is not valid the
  normalizer returns no frame: it raises.
\<close>

theorem normalize_keeps_every_row:
  assumes "2 \<le> length g"
  shows "((\<exists>t. normalize_products g = Inr t) \<longleftrightarrow> well_formed products_source g) \<and>
         (\<forall>t. normalize_products g = Inr t \<longrightarrow> nrows t = length g - 1 \<and> frame_ok t) \<and>
         ((\<exists>t. normalize_orders g = Inr t) \<longleftrightarrow> well_formed orders_source g) \<and>
         (\<forall>t. normalize_orders g = Inr t \<longrightarrow> nrows t = length g - 1 \<and> frame_ok t) \<and>
         ((\<exists>t. normalize_hours g = Inr t) \<longleftrightarrow> well_formed hours_source g) \<and>
         (\<forall>t. normalize_hours g = Inr t \<longrightarrow> nrows t = length g - 1 \<and> frame_ok t) \<and>
         (well_formed products_source g \<longrightarrow>
            normalize_products g = Inr \<lparr>nrows = length g - 1,
              cols = replicate (max 1 (count_list (hd g) ''Date Uploaded''))
                       (''Date Uploaded'', map coerce_date (raw_column g ''Date Uploaded:'')) @
                     [(''eBay Price'', map coerce_currency (raw_column g ''eBay Price'')),
                      (''Profit Per Product Present'',
                       map coerce_percent (raw_column g ''Profit Per Product Present''))]\<rparr>) \<and>
         (well_formed orders_source g \<longrightarrow>
            normalize_orders g = Inr \<lparr>nrows = length g - 1,
              cols = [(''Date Of Purchase'', map coerce_date (raw_column g ''Date Of Purchase'')),
                      (''eBay Price'', map coerce_currency (raw_column g ''eBay Price'')),
                      (''Profit Per Sale USD'', map coerce_currency (raw_column g ''Profit Per Sale USD'')),
                      (''Total Sales'', map coerce_currency (raw_column g ''Total Sales'')),
                      (''Total Profits'', map coerce_currency (raw_column g ''Total Profits''))]\<rparr>) \<and>
         (well_formed hours_source g \<longrightarrow>
            normalize_hours g = Inr \<lparr>nrows = length g - 1,
              cols = replicate (max 1 (count_list (hd g) ''Date''))
                       (''Date'', map coerce_date (raw_column g ''Date:'')) @
                     replicate (max 1 (count_list (hd g) ''Hours''))
                       (''Hours'', map coerce_number (raw_column g ''Hours:''))\<rparr>) \<and>
         length (raw_column g name) = length g - 1 \<and>
         (coerce_date c = NA \<or> (\<exists>d. coerce_date c = Date d)) \<and>
         (coerce_number c = NA \<or> (\<exists>x. coerce_number c = Number x)) \<and>
         (coerce_currency c = NA \<or> (\<exists>x. coerce_currency c = Number x)) \<and>
         (coerce_percent c = NA \<or> (\<exists>x. coerce_percent c = Number x))"
proof -
  have pe: "normalize_products g = Inr \<lparr>nrows = length g - 1,
              cols = replicate (max 1 (count_list (hd g) ''Date Uploaded''))
                       (''Date Uploaded'', map coerce_date (raw_column g ''Date Uploaded:'')) @
                     [(''eBay Price'', map coerce_currency (raw_column g ''eBay Price'')),
                      (''Profit Per Product Present'',
                       map coerce_percent (raw_column g ''Profit Per Product Present''))]\<rparr>"
    if "well_formed products_source g"
    using normalize_products_eq [OF assms] that
    by (simp add: well_formed_def products_source_def)
  have oe: "normalize_orders g = Inr \<lparr>nrows = length g - 1,
              cols = [(''Date Of Purchase'', map coerce_date (raw_column g ''Date Of Purchase'')),
                      (''eBay Price'', map coerce_currency (raw_column g ''eBay Price'')),
                      (''Profit Per Sale USD'', map coerce_currency (raw_column g ''Profit Per Sale USD'')),
                      (''Total Sales'', map coerce_currency (raw_column g ''Total Sales'')),
                      (''Total Profits'', map coerce_currency (raw_column g ''Total Profits''))]\<rparr>"
    if "well_formed orders_source g"
    using normalize_orders_eq [OF assms] that
    by (simp add: well_formed_def orders_source_def)
  have he: "normalize_hours g = Inr \<lparr>nrows = length g - 1,
              cols = replicate (max 1 (count_list (hd g) ''Date''))
                       (''Date'', map coerce_date (raw_column g ''Date:'')) @
                     replicate (max 1 (count_list (hd g) ''Hours''))
                       (''Hours'', map coerce_number (raw_column g ''Hours:''))\<rparr>"
    if "well_formed hours_source g"
    using normalize_hours_eq [OF assms] that
    by (simp add: well_formed_def hours_source_def)
  have p: "(\<exists>t. normalize_products g = Inr t) \<longleftrightarrow> well_formed products_source g"
  proof
    assume "\<exists>t. normalize_products g = Inr t"
    then show "well_formed products_source g"
      using normalize_products_returns [OF assms] by (elim exE)
  next
    assume "well_formed products_source g"
    from pe [OF this] show "\<exists>t. normalize_products g = Inr t" by (rule exI)
  qed
  have o: "(\<exists>t. normalize_orders g = Inr t) \<longleftrightarrow> well_formed orders_source g"
  proof
    assume "\<exists>t. normalize_orders g = Inr t"
    then show "well_formed orders_source g"
      using normalize_orders_returns [OF assms] by (elim exE)
  next
    assume "well_formed orders_source g"
    from oe [OF this] show "\<exists>t. normalize_orders g = Inr t" by (rule exI)
  qed
  have h: "(\<exists>t. normalize_hours g = Inr t) \<longleftrightarrow> well_formed hours_source g"
  proof
    assume "\<exists>t. normalize_hours g = Inr t"
    then show "well_formed hours_source g"
      using normalize_hours_returns [OF assms] by (elim exE)
  next
    assume "well_formed hours_source g"
    from he [OF this] show "\<exists>t. normalize_hours g = Inr t" by (rule exI)
  qed
  have pr: "\<forall>t. normalize_products g = Inr t \<longrightarrow> nrows t = length g - 1 \<and> frame_ok t"
    using normalize_products_rows [OF assms] by blast
  have or: "\<forall>t. normalize_orders g = Inr t \<longrightarrow> nrows t = length g - 1 \<and> frame_ok t"
    using normalize_orders_rows [OF assms] by blast
  have hr: "\<forall>t. normalize_hours g = Inr t \<longrightarrow> nrows t = length g - 1 \<and> frame_ok t"
    using normalize_hours_rows [OF assms] by blast
  have len: "length (raw_column g name) = length g - 1"
    by (simp add: raw_column_def)
  have pe': "well_formed products_source g \<longrightarrow>
            normalize_products g = Inr \<lparr>nrows = length g - 1,
              cols = replicate (max 1 (count_list (hd g) ''Date Uploaded''))
                       (''Date Uploaded'', map coerce_date (raw_column g ''Date Uploaded:'')) @
                     [(''eBay Price'', map coerce_currency (raw_column g ''eBay Price'')),
                      (''Profit Per Product Present'',
                       map coerce_percent (raw_column g ''Profit Per Product Present''))]\<rparr>"
    by (rule impI) (rule pe)
  have oe': "well_formed orders_source g \<longrightarrow>
            normalize_orders g = Inr \<lparr>nrows = length g - 1,
              cols = [(''Date Of Purchase'', map coerce_date (raw_column g ''Date Of Purchase'')),
                      (''eBay Price'', map coerce_currency (raw_column g ''eBay Price'')),
                      (''Profit Per Sale USD'', map coerce_currency (raw_column g ''Profit Per Sale USD'')),
                      (''Total Sales'', map coerce_currency (raw_column g ''Total Sales'')),
                      (''Total Profits'', map coerce_currency (raw_column g ''Total Profits''))]\<rparr>"
    by (rule impI) (rule oe)
  have he': "well_formed hours_source g \<longrightarrow>
            normalize_hours g = Inr \<lparr>nrows = length g - 1,
              cols = replicate (max 1 (count_list (hd g) ''Date''))
                       (''Date'', map coerce_date (raw_column g ''Date:'')) @
                     replicate (max 1 (count_list (hd g) ''Hours''))
                       (''Hours'', map coerce_number (raw_column g ''Hours:''))\<rparr>"
    by (rule impI) (rule he)
  show ?thesis
    by (intro conjI p pr o or h hr pe' oe' he' len typed_or_missing)
qed

theorem normalize_keeps_every_row_witness:
  "2 \<le> length [[''Date:'', ''Hours:'', ''Note''], [''not-a-date'', ''7.5'', ''''], [''03/01/2024'', ''n/a'']] \<and>
   well_formed hours_source
     [[''Date:'', ''Hours:'', ''Note''], [''not-a-date'', ''7.5'', ''''], [''03/01/2024'', ''n/a'']] \<and>
   normalize_hours
     [[''Date:'', ''Hours:'', ''Note''], [''not-a-date'', ''7.5'', ''''], [''03/01/2024'', ''n/a'']] =
     Inr \<lparr>nrows = 2,
          cols = [(''Date'', [NA, Date \<lparr>year = 2024, month = 1, day = 3\<rparr>]),
                  (''Hours'', [Number (15 / 2), NA])]\<rparr> \<and>
   (\<exists>t. normalize_hours
          [[''Date:'', ''Hours:'', ''Note''], [''not-a-date'', ''7.5'', ''''], [''03/01/2024'', ''n/a'']] = Inr t \<and>
        nrows t = 2 \<and> frame_ok t)"
proof -
  let ?g = "[[''Date:'', ''Hours:'', ''Note''], [''not-a-date'', ''7.5'', ''''], [''03/01/2024'', ''n/a'']]"
  have two: "2 \<le> length ?g" by simp
  have wf: "well_formed hours_source ?g"
    by (simp add: well_formed_def hours_source_def data_width_def)
  have "normalize_hours ?g = Inr \<lparr>nrows = length ?g - 1,
              cols = replicate (max 1 (count_list (hd ?g) ''Date''))
                       (''Date'', map coerce_date (raw_column ?g ''Date:'')) @
                     replicate (max 1 (count_list (hd ?g) ''Hours''))
                       (''Hours'', map coerce_number (raw_column ?g ''Hours:''))\<rparr>"
    using normalize_keeps_every_row [OF two] wf by blast
  then have v: "normalize_hours ?g = Inr \<lparr>nrows = 2,
          cols = [(''Date'', [NA, Date \<lparr>year = 2024, month = 1, day = 3\<rparr>]),
                  (''Hours'', [Number (15 / 2), NA])]\<rparr>"
    by (simp add: raw_column_def column_index_def cell_at_def coerce_defs reader_defs)
  with normalize_keeps_every_row [OF two]
  have "nrows \<lparr>nrows = 2,
          cols = [(''Date'', [NA, Date \<lparr>year = 2024, month = 1, day = 3\<rparr>]),
                  (''Hours'', [Number (15 / 2), NA])]\<rparr> = length ?g - 1 \<and>
        frame_ok \<lparr>nrows = 2,
          cols = [(''Date'', [NA, Date \<lparr>year = 2024, month = 1, day = 3\<rparr>]),
                  (''Hours'', [Number (15 / 2), NA])]\<rparr>"
    by blast
  with two wf v show ?thesis by auto
qed

text \<open>
  The claim as it was stated, for every grid with at least 2 rows, fails on a grid that
  is not valid: the header below has no column \<^verbatim>\<open>Date:\<close>, and the normalizer of the time
  entries returns no table on it but raises \<^verbatim>\<open>KeyError\<close>; so does the one of the
  listings on a grid with a data row wider than the header, with \<^verbatim>\<open>ValueError\<close>.
\<close>

theorem normalize_raises_on_invalid_grid:
  "2 \<le> length [[''Date'', ''Hours:''], [''01/02/2024'', ''8'']] \<and>
   normalize_hours [[''Date'', ''Hours:''], [''01/02/2024'', ''8'']] = Inl (Exn KeyError (quoted ''Date:'')) \<and>
   2 \<le> length [[''Date Uploaded:'', ''eBay Price'', ''Profit Per Product Present''],
                [''01/02/2024'', ''8'', ''45%'', ''extra'']] \<and>
   normalize_products [[''Date Uploaded:'', ''eBay Price'', ''Profit Per Product Present''],
                       [''01/02/2024'', ''8'', ''45%'', ''extra'']] =
     Inl (Exn ValueError ''3 columns passed, passed data had 4 columns'')"
  by (simp add: normalize_hours_def normalize_products_def DataFrame_def data_width_def
      assign_col_def date_col_def get_col_def key_error_def shape_error_def show_nat.simps
      digit_char_def)

section \<open>Claims about the coercion of cells\<close>

lemma coerce_examples:
  "coerce_currency (Text (CHR 0xA3 # ''12.50'')) = Number (25 / 2)"
  "coerce_percent (Text ''45%'') = Number (9 / 20)"
  "coerce_date (Text ''25/12/2023'') = Date \<lparr>year = 2023, month = 12, day = 25\<rparr>"
  "coerce_date (Text ''not-a-date'') = NA"
  "coerce_currency (Text '''') = NA"
  "coerce_percent (Text '''') = NA"
  "coerce_number (Text '''') = NA"
  by (simp_all add: coerce_defs reader_defs)

text \<open>
  Claim C6, as the script has it. No coercion raises: each gives a cell for every string.
  A currency cell (the price of the listings; the price, the profit per sale and the two
  totals of the orders) loses every character that is neither a digit nor a point and is
  then read as a number, so the pound sign and \<^verbatim>\<open>12.50\<close> give 12.50. A percentage
  cell loses every percent sign, wherever it stands and not only at the end, is read as
  a number and divided by 100, so \<^verbatim>\<open>45%\<close> gives 0.45. An hours cell is read as a
  number as it stands: nothing is stripped from it. A date cell is read as day, month
  and year. A cell that cannot be read, the empty string among them, is missing. On a
  well-formed grid with a data row the frame that a normalizer returns holds exactly
  these coercions of the source columns.
\<close>

theorem cell_coercion:
  "coerce_currency (Text s) =
     (case to_numeric (filter (\<lambda>c. is_digit c \<or> c = CHR ''.'') s) of Some x \<Rightarrow> Number x | None \<Rightarrow> NA) \<and>
   coerce_percent (Text s) =
     (case to_numeric (filter (\<lambda>c. c \<noteq> CHR ''%'') s) of Some x \<Rightarrow> Number (x / 100) | None \<Rightarrow> NA) \<and>
   coerce_number (Text s) = (case to_numeric s of Some x \<Rightarrow> Number x | None \<Rightarrow> NA) \<and>
   coerce_date (Text s) = (case to_datetime s of Some d \<Rightarrow> Date d | None \<Rightarrow> NA) \<and>
   coerce_currency (Text (CHR 0xA3 # ''12.50'')) = Number (25 / 2) \<and>
   coerce_percent (Text ''45%'') = Number (9 / 20) \<and>
   coerce_date (Text ''25/12/2023'') = Date \<lparr>year = 2023, month = 12, day = 25\<rparr> \<and>
   coerce_date (Text ''not-a-date'') = NA \<and>
   coerce_currency (Text '''') = NA \<and> coerce_percent (Text '''') = NA \<and> coerce_number (Text '''') = NA \<and>
   (2 \<le> length g \<and> well_formed products_source g \<longrightarrow>
      normalize_products g = Inr \<lparr>nrows = length g - 1,
        cols = replicate (max 1 (count_list (hd g) ''Date Uploaded''))
                 (''Date Uploaded'', map coerce_date (raw_column g ''Date Uploaded:'')) @
               [(''eBay Price'', map coerce_currency (raw_column g ''eBay Price'')),
                (''Profit Per Product Present'',
                 map coerce_percent (raw_column g ''Profit Per Product Present''))]\<rparr>) \<and>
   (2 \<le> length g \<and> well_formed orders_source g \<longrightarrow>
      normalize_orders g = Inr \<lparr>nrows = length g - 1,
        cols = [(''Date Of Purchase'', map coerce_date (raw_column g ''Date Of Purchase'')),
                (''eBay Price'', map coerce_currency (raw_column g ''eBay Price'')),
                (''Profit Per Sale USD'', map coerce_currency (raw_column g ''Profit Per Sale USD'')),
                (''Total Sales'', map coerce_currency (raw_column g ''Total Sales'')),
                (''Total Profits'', map coerce_currency (raw_column g ''Total Profits''))]\<rparr>) \<and>
   (2 \<le> length g \<and> well_formed hours_source g \<longrightarrow>
      normalize_hours g = Inr \<lparr>nrows = length g - 1,
        cols = replicate (max 1 (count_list (hd g) ''Date''))
                 (''Date'', map coerce_date (raw_column g ''Date:'')) @
               replicate (max 1 (count_list (hd g) ''Hours''))
                 (''Hours'', map coerce_number (raw_column g ''Hours:''))\<rparr>)"
proof -
  have a: "filter (\<lambda>x. \<not> not_digit_or_point x) s = filter (\<lambda>c. is_digit c \<or> c = CHR ''.'') s"
    by (simp add: not_digit_or_point_def)
  have b: "filter (\<lambda>x. \<not> is_percent x) s = filter (\<lambda>c. c \<noteq> CHR ''%'') s"
    by (simp add: is_percent_def)
  have cells: "coerce_currency (Text s) =
       (case to_numeric (filter (\<lambda>c. is_digit c \<or> c = CHR ''.'') s) of Some x \<Rightarrow> Number x | None \<Rightarrow> NA)"
    "coerce_percent (Text s) =
       (case to_numeric (filter (\<lambda>c. c \<noteq> CHR ''%'') s) of Some x \<Rightarrow> Number (x / 100) | None \<Rightarrow> NA)"
    "coerce_number (Text s) = (case to_numeric s of Some x \<Rightarrow> Number x | None \<Rightarrow> NA)"
    "coerce_date (Text s) = (case to_datetime s of Some d \<Rightarrow> Date d | None \<Rightarrow> NA)"
    by (simp_all add: coerce_currency_def coerce_percent_def coerce_number_def coerce_date_def
        str_delete_def divide_by_def a b split: option.splits)
  have p: "normalize_products g = Inr \<lparr>nrows = length g - 1,
        cols = replicate (max 1 (count_list (hd g) ''Date Uploaded''))
                 (''Date Uploaded'', map coerce_date (raw_column g ''Date Uploaded:'')) @
               [(''eBay Price'', map coerce_currency (raw_column g ''eBay Price'')),
                (''Profit Per Product Present'',
                 map coerce_percent (raw_column g ''Profit Per Product Present''))]\<rparr>"
    if "2 \<le> length g" "well_formed products_source g"
    using normalize_products_eq [OF that(1)] that(2)
    by (simp add: well_formed_def products_source_def)
  have o: "normalize_orders g = Inr \<lparr>nrows = length g - 1,
        cols = [(''Date Of Purchase'', map coerce_date (raw_column g ''Date Of Purchase'')),
                (''eBay Price'', map coerce_currency (raw_column g ''eBay Price'')),
                (''Profit Per Sale USD'', map coerce_currency (raw_column g ''Profit Per Sale USD'')),
                (''Total Sales'', map coerce_currency (raw_column g ''Total Sales'')),
                (''Total Profits'', map coerce_currency (raw_column g ''Total Profits''))]\<rparr>"
    if "2 \<le> length g" "well_formed orders_source g"
    using normalize_orders_eq [OF that(1)] that(2)
    by (simp add: well_formed_def orders_source_def)
  have h: "normalize_hours g = Inr \<lparr>nrows = length g - 1,
        cols = replicate (max 1 (count_list (hd g) ''Date''))
                 (''Date'', map coerce_date (raw_column g ''Date:'')) @
               replicate (max 1 (count_list (hd g) ''Hours''))
                 (''Hours'', map coerce_number (raw_column g ''Hours:''))\<rparr>"
    if "2 \<le> length g" "well_formed hours_source g"
    using normalize_hours_eq [OF that(1)] that(2)
    by (simp add: well_formed_def hours_source_def)
  show ?thesis
    using cells coerce_examples p o h by blast
qed

theorem cell_coercion_witness:
  "2 \<le> length [[''Date Uploaded:'', ''eBay Price'', ''Profit Per Product Present''],
                [''25/12/2023'', CHR 0xA3 # ''12.50'', ''45%''],
                [''not-a-date'', '''', ''4%5'']] \<and>
   well_formed products_source
               [[''Date Uploaded:'', ''eBay Price'', ''Profit Per Product Present''],
                [''25/12/2023'', CHR 0xA3 # ''12.50'', ''45%''],
                [''not-a-date'', '''', ''4%5'']] \<and>
   normalize_products
               [[''Date Uploaded:'', ''eBay Price'', ''Profit Per Product Present''],
                [''25/12/2023'', CHR 0xA3 # ''12.50'', ''45%''],
                [''not-a-date'', '''', ''4%5'']] =
     Inr \<lparr>nrows = 2,
          cols = [(''Date Uploaded'', [Date \<lparr>year = 2023, month = 12, day = 25\<rparr>, NA]),
                  (''eBay Price'', [Number (25 / 2), NA]),
                  (''Profit Per Product Present'', [Number (9 / 20), Number (9 / 20)])]\<rparr>"
proof -
  let ?g = "[[''Date Uploaded:'', ''eBay Price'', ''Profit Per Product Present''],
                [''25/12/2023'', CHR 0xA3 # ''12.50'', ''45%''],
                [''not-a-date'', '''', ''4%5'']]"
  have two: "2 \<le> length ?g" by simp
  have wf: "well_formed products_source ?g"
    by (simp add: well_formed_def products_source_def data_width_def)
  have "normalize_products ?g = Inr \<lparr>nrows = length ?g - 1,
        cols = replicate (max 1 (count_list (hd ?g) ''Date Uploaded''))
                 (''Date Uploaded'', map coerce_date (raw_column ?g ''Date Uploaded:'')) @
               [(''eBay Price'', map coerce_currency (raw_column ?g ''eBay Price'')),
                (''Profit Per Product Present'',
                 map coerce_percent (raw_column ?g ''Profit Per Product Present''))]\<rparr>"
    using cell_coercion [of "[]" ?g] two wf by blast
  then have "normalize_products ?g = Inr \<lparr>nrows = 2,
          cols = [(''Date Uploaded'', [Date \<lparr>year = 2023, month = 12, day = 25\<rparr>, NA]),
                  (''eBay Price'', [Number (25 / 2), NA]),
                  (''Profit Per Product Present'', [Number (9 / 20), Number (9 / 20)])]\<rparr>"
    by (simp add: raw_column_def column_index_def cell_at_def coerce_defs reader_defs)
  with two wf show ?thesis by blast
qed

text \<open>
  The claim as it was stated fails at two cells. The hours column is a numeric column,
  and its cell \<^verbatim>\<open>$8\<close> is not stripped to 8: it is missing, where the price cell
  \<^verbatim>\<open>$8\<close> is 8. And the percentage cell \<^verbatim>\<open>4%5\<close>, which has no percent sign at
  its end and is no number, is not missing: it is 0.45.
\<close>

theorem hours_not_stripped_percent_anywhere:
  "normalize_hours [[''Date:'', ''Hours:''], [''01/02/2024'', ''$8'']] =
     Inr \<lparr>nrows = 1, cols = [(''Date'', [Date \<lparr>year = 2024, month = 2, day = 1\<rparr>]), (''Hours'', [NA])]\<rparr> \<and>
   normalize_products [[''Date Uploaded:'', ''eBay Price'', ''Profit Per Product Present''],
                       [''01/02/2024'', ''$8'', ''4%5'']] =
     Inr \<lparr>nrows = 1, cols = [(''Date Uploaded'', [Date \<lparr>year = 2024, month = 2, day = 1\<rparr>]),
                             (''eBay Price'', [Number 8]),
                             (''Profit Per Product Present'', [Number (9 / 20)])]\<rparr>"
proof -
  have h: "normalize_hours [[''Date:'', ''Hours:''], [''01/02/2024'', ''$8'']] =
     Inr \<lparr>nrows = 1, cols = [(''Date'', [Date \<lparr>year = 2024, month = 2, day = 1\<rparr>]), (''Hours'', [NA])]\<rparr>"
    using normalize_hours_eq [of "[[''Date:'', ''Hours:''], [''01/02/2024'', ''$8'']]"]
    by (simp add: data_width_def raw_column_def column_index_def cell_at_def coerce_defs reader_defs)
  have p: "normalize_products [[''Date Uploaded:'', ''eBay Price'', ''Profit Per Product Present''],
                       [''01/02/2024'', ''$8'', ''4%5'']] =
     Inr \<lparr>nrows = 1, cols = [(''Date Uploaded'', [Date \<lparr>year = 2024, month = 2, day = 1\<rparr>]),
                             (''eBay Price'', [Number 8]),
                             (''Profit Per Product Present'', [Number (9 / 20)])]\<rparr>"
    using normalize_products_eq [of "[[''Date Uploaded:'', ''eBay Price'', ''Profit Per Product Present''],
                       [''01/02/2024'', ''$8'', ''4%5'']]"]
    by (simp add: data_width_def raw_column_def column_index_def cell_at_def coerce_defs reader_defs)
  from h p show ?thesis by blast
qed


section \<open>Claims about the aggregation\<close>

lemma group_keys_strict: "sorted_wrt (<) (group_keys keys)"
  by (simp add: group_keys_def strict_sorted_iff)

lemma set_map_filter_Some: "set (List.map_filter f xs) = {y. \<exists>x \<in> set xs. f x = Some y}"
  by (induction xs) (auto split: option.splits)

lemma set_group_keys: "set (group_keys keys) = {k. \<exists>c \<in> set keys. period_of c = Some k}"
  by (simp add: group_keys_def set_map_filter_Some)

lemma group_keys_cong: "set keys' = set keys \<Longrightarrow> group_keys keys' = group_keys keys"
proof -
  assume "set keys' = set keys"
  then have "set (List.map_filter period_of keys') = set (List.map_filter period_of keys)"
    by (simp add: set_map_filter_Some)
  then have "sorted_list_of_set (set (List.map_filter period_of keys')) =
             sorted_list_of_set (set (List.map_filter period_of keys))"
    by simp
  then show ?thesis
    by (simp only: group_keys_def sorted_list_of_set_sort_remdups)
qed

lemma reductions_unfold:
  "group_size keys = map (\<lambda>k. (k, of_nat (length (group_rows k keys keys)))) (group_keys keys)"
  "group_count keys xs =
     map (\<lambda>k. (k, of_nat (length (filter (\<lambda>c. c \<noteq> NA) (group_rows k keys xs))))) (group_keys keys)"
  "group_sum keys xs = map (\<lambda>k. (k, sum_numbers (group_rows k keys xs))) (group_keys keys)"
  by (simp_all add: group_size_def group_count_def group_sum_def groupby_def comp_def)

lemma reductions_keys:
  "map fst (group_size keys) = group_keys keys"
  "map fst (group_count keys xs) = group_keys keys"
  "map fst (group_sum keys xs) = group_keys keys"
  by (simp_all add: reductions_unfold comp_def)

lemma keys_of_present:
  "List.map_filter period_of (map fst (filter (\<lambda>row. period_of (fst row) \<noteq> None) zs)) =
   List.map_filter period_of (map fst zs)"
  by (induction zs) (auto split: option.splits)

lemma group_keys_present:
  assumes "length xs = length keys"
  shows "group_keys (map fst (present_rows keys xs)) = group_keys keys"
proof -
  have "List.map_filter period_of (map fst (present_rows keys xs)) =
        List.map_filter period_of (map fst (zip keys xs))"
    by (simp only: present_rows_def keys_of_present)
  with assms show ?thesis
    by (simp add: group_keys_def)
qed

lemma group_rows_present:
  "group_rows k (map fst (present_rows keys xs)) (map snd (present_rows keys xs)) = group_rows k keys xs"
proof -
  have "filter (\<lambda>row. period_of (fst row) = Some k) (filter (\<lambda>row. period_of (fst row) \<noteq> None) zs) =
        filter (\<lambda>row. period_of (fst row) = Some k) zs" for zs :: "(cell \<times> 'a) list"
    by (induction zs) auto
  then show ?thesis
    by (simp add: group_rows_def present_rows_def zip_map_fst_snd)
qed

lemma zip_self: "zip ks ks = map (\<lambda>k. (k, k)) ks"
  by (induction ks) auto

lemma present_rows_self:
  "map fst (present_rows keys keys) = map snd (present_rows keys keys)"
  by (simp add: present_rows_def zip_self filter_map comp_def)

lemma mset_group_rows:
  "mset (group_rows k keys xs) = image_mset snd (filter_mset (\<lambda>row. period_of (fst row) = Some k) (mset (zip keys xs)))"
  by (simp add: group_rows_def)

lemma length_mset: "mset g' = mset g \<Longrightarrow> length g' = length g"
  by (metis size_mset)

lemma count_mset: "mset g' = mset g \<Longrightarrow> length (filter P g') = length (filter P g)"
  by (metis mset_filter size_mset)

lemma permuted_rows:
  assumes "length xs = length keys" and "length xs' = length keys'"
    and "mset (zip keys' xs') = mset (zip keys xs)"
  shows "group_keys keys' = group_keys keys"
    and "mset (group_rows k keys' xs') = mset (group_rows k keys xs)"
    and "mset (group_rows k keys' keys') = mset (group_rows k keys keys)"
proof -
  have "image_mset fst (mset (zip keys' xs')) = image_mset fst (mset (zip keys xs))"
    using assms(3) by simp
  then have "mset (map fst (zip keys' xs')) = mset (map fst (zip keys xs))"
    by simp
  with assms(1,2) have m: "mset keys' = mset keys" by simp
  then have "set keys' = set keys" by (rule mset_eq_setD)
  then show "group_keys keys' = group_keys keys" by (rule group_keys_cong)
  show "mset (group_rows k keys' xs') = mset (group_rows k keys xs)"
    by (simp only: mset_group_rows assms(3))
  from m have "mset (zip keys' keys') = mset (zip keys keys)"
    by (simp add: zip_self)
  then show "mset (group_rows k keys' keys') = mset (group_rows k keys keys)"
    by (simp only: mset_group_rows)
qed

lemma permuted_reductions:
  assumes "length xs = length keys" and "length xs' = length keys'"
    and "mset (zip keys' xs') = mset (zip keys xs)"
  shows "group_size keys' = group_size keys"
    and "group_count keys' xs' = group_count keys xs"
    and "map fst (group_sum keys' xs') = map fst (group_sum keys xs)"
    and "map (\<lambda>g. (fst g, mset (snd g))) (groupby keys' xs') =
         map (\<lambda>g. (fst g, mset (snd g))) (groupby keys xs)"
proof -
  note keys = permuted_rows(1) [OF assms]
  have a: "length (group_rows k keys' keys') = length (group_rows k keys keys)" for k
    using permuted_rows(3) [OF assms] by (rule length_mset)
  have b: "length (filter (\<lambda>c. c \<noteq> NA) (group_rows k keys' xs')) =
           length (filter (\<lambda>c. c \<noteq> NA) (group_rows k keys xs))" for k
    using permuted_rows(2) [OF assms] by (rule count_mset)
  show "group_size keys' = group_size keys"
    by (simp only: reductions_unfold keys a)
  show "group_count keys' xs' = group_count keys xs"
    by (simp only: reductions_unfold keys b)
  show "map fst (group_sum keys' xs') = map fst (group_sum keys xs)"
    by (simp only: reductions_keys keys)
  show "map (\<lambda>g. (fst g, mset (snd g))) (groupby keys' xs') =
        map (\<lambda>g. (fst g, mset (snd g))) (groupby keys xs)"
    by (simp add: groupby_def comp_def keys permuted_rows(2) [OF assms])
qed

text \<open>
  Claim C7. For a date column and a value column of one table (as long as each other),
  in any order of the rows: the months of each of the three aggregations are in strictly
  ascending order, so none occurs twice, and they are exactly the months of the dates
  that are present; a row whose date is missing is in no group, so the aggregation is
  that of the table without these rows; and a table with the same rows in another order
  has the same months in the same order, the same counts, and in each group the same
  values to add.
\<close>

theorem aggregation_by_month:
  assumes "length xs = length keys"
  shows "sorted_wrt (<) (map fst (group_size keys)) \<and> distinct (map fst (group_size keys)) \<and>
         sorted_wrt (<) (map fst (group_count keys xs)) \<and> distinct (map fst (group_count keys xs)) \<and>
         sorted_wrt (<) (map fst (group_sum keys xs)) \<and> distinct (map fst (group_sum keys xs)) \<and>
         set (map fst (group_size keys)) = {k. \<exists>c \<in> set keys. period_of c = Some k} \<and>
         set (map fst (group_count keys xs)) = {k. \<exists>c \<in> set keys. period_of c = Some k} \<and>
         set (map fst (group_sum keys xs)) = {k. \<exists>c \<in> set keys. period_of c = Some k} \<and>
         group_size keys = group_size (map fst (present_rows keys xs)) \<and>
         group_count keys xs = group_count (map fst (present_rows keys xs)) (map snd (present_rows keys xs)) \<and>
         group_sum keys xs = group_sum (map fst (present_rows keys xs)) (map snd (present_rows keys xs)) \<and>
         (\<forall>keys' xs'. length xs' = length keys' \<and> mset (zip keys' xs') = mset (zip keys xs) \<longrightarrow>
            group_size keys' = group_size keys \<and> group_count keys' xs' = group_count keys xs \<and>
            map fst (group_sum keys' xs') = map fst (group_sum keys xs) \<and>
            map (\<lambda>g. (fst g, mset (snd g))) (groupby keys' xs') =
            map (\<lambda>g. (fst g, mset (snd g))) (groupby keys xs))"
proof -
  have strict: "sorted_wrt (<) (group_keys keys)" "distinct (group_keys keys)"
    using group_keys_strict [of keys] by (simp_all add: strict_sorted_iff)
  have size_present: "group_size keys = group_size (map fst (present_rows keys xs))"
  proof -
    have "group_rows k (map fst (present_rows keys keys)) (map fst (present_rows keys keys)) = group_rows k keys keys" for k
      using group_rows_present [of k keys keys] by (simp only: present_rows_self)
    moreover have "map fst (present_rows keys xs) = map fst (present_rows keys keys)"
      using assms by (simp add: present_rows_def zip_self filter_map comp_def)
          (induction keys xs rule: list_induct2', auto)
    ultimately show ?thesis
      using group_keys_present [OF assms]
      by (simp add: reductions_unfold)
  qed
  have present: 
    "group_count keys xs = group_count (map fst (present_rows keys xs)) (map snd (present_rows keys xs))"
    "group_sum keys xs = group_sum (map fst (present_rows keys xs)) (map snd (present_rows keys xs))"
    using group_keys_present [OF assms]
    by (simp_all add: reductions_unfold group_rows_present)
  have keys: "map fst (group_size keys) = group_keys keys"
    "map fst (group_count keys xs) = group_keys keys"
    "map fst (group_sum keys xs) = group_keys keys"
    by (rule reductions_keys)+
  have ordered: "sorted_wrt (<) (map fst (group_size keys))" "distinct (map fst (group_size keys))"
    "sorted_wrt (<) (map fst (group_count keys xs))" "distinct (map fst (group_count keys xs))"
    "sorted_wrt (<) (map fst (group_sum keys xs))" "distinct (map fst (group_sum keys xs))"
    by (simp_all only: keys strict)
  have months: "set (map fst (group_size keys)) = {k. \<exists>c \<in> set keys. period_of c = Some k}"
    "set (map fst (group_count keys xs)) = {k. \<exists>c \<in> set keys. period_of c = Some k}"
    "set (map fst (group_sum keys xs)) = {k. \<exists>c \<in> set keys. period_of c = Some k}"
    by (simp_all only: keys set_group_keys)
  have permuted: "\<forall>keys' xs'. length xs' = length keys' \<and> mset (zip keys' xs') = mset (zip keys xs) \<longrightarrow>
            group_size keys' = group_size keys \<and> group_count keys' xs' = group_count keys xs \<and>
            map fst (group_sum keys' xs') = map fst (group_sum keys xs) \<and>
            map (\<lambda>g. (fst g, mset (snd g))) (groupby keys' xs') =
            map (\<lambda>g. (fst g, mset (snd g))) (groupby keys xs)"
  proof (intro allI impI)
    fix keys' :: series and xs' :: series
    assume "length xs' = length keys' \<and> mset (zip keys' xs') = mset (zip keys xs)"
    then have l: "length xs' = length keys'" and m: "mset (zip keys' xs') = mset (zip keys xs)"
      by simp_all
    show "group_size keys' = group_size keys \<and> group_count keys' xs' = group_count keys xs \<and>
            map fst (group_sum keys' xs') = map fst (group_sum keys xs) \<and>
            map (\<lambda>g. (fst g, mset (snd g))) (groupby keys' xs') =
            map (\<lambda>g. (fst g, mset (snd g))) (groupby keys xs)"
      by (intro conjI permuted_reductions [OF assms l m])
  qed
  show ?thesis
    by (intro conjI ordered months size_present present permuted)
qed

theorem aggregation_by_month_witness:
  "length [Number 1, Number 100, Number (5 / 2), NA] =
   length [Date \<lparr>year = 2023, month = 12, day = 25\<rparr>, NA, Date \<lparr>year = 2023, month = 11, day = 2\<rparr>,
           Date \<lparr>year = 2023, month = 12, day = 1\<rparr>] \<and>
   sorted_wrt (<) (map fst (group_sum
          [Date \<lparr>year = 2023, month = 12, day = 25\<rparr>, NA, Date \<lparr>year = 2023, month = 11, day = 2\<rparr>,
           Date \<lparr>year = 2023, month = 12, day = 1\<rparr>]
          [Number 1, Number 100, Number (5 / 2), NA])) \<and>
   group_sum [Date \<lparr>year = 2023, month = 12, day = 25\<rparr>, NA, Date \<lparr>year = 2023, month = 11, day = 2\<rparr>,
           Date \<lparr>year = 2023, month = 12, day = 1\<rparr>]
          [Number 1, Number 100, Number (5 / 2), NA] = [((2023, 11), 5 / 2), ((2023, 12), 1)] \<and>
   group_count [Date \<lparr>year = 2023, month = 12, day = 25\<rparr>, NA, Date \<lparr>year = 2023, month = 11, day = 2\<rparr>,
           Date \<lparr>year = 2023, month = 12, day = 1\<rparr>]
          [Number 1, Number 100, Number (5 / 2), NA] = [((2023, 11), 1), ((2023, 12), 1)] \<and>
   group_size [Date \<lparr>year = 2023, month = 12, day = 25\<rparr>, NA, Date \<lparr>year = 2023, month = 11, day = 2\<rparr>,
           Date \<lparr>year = 2023, month = 12, day = 1\<rparr>] = [((2023, 11), 1), ((2023, 12), 2)]"
proof -
  let ?K = "[Date \<lparr>year = 2023, month = 12, day = 25\<rparr>, NA, Date \<lparr>year = 2023, month = 11, day = 2\<rparr>,
           Date \<lparr>year = 2023, month = 12, day = 1\<rparr>]"
  let ?X = "[Number 1, Number 100, Number (5 / 2), NA]"
  have len: "length ?X = length ?K" by simp
  have keys: "group_keys ?K = [(2023, 11), (2023, 12)]"
    by (simp add: group_keys_def period_of_def)
  have present: "present_rows ?K ?X =
      [(Date \<lparr>year = 2023, month = 12, day = 25\<rparr>, Number 1),
       (Date \<lparr>year = 2023, month = 11, day = 2\<rparr>, Number (5 / 2)),
       (Date \<lparr>year = 2023, month = 12, day = 1\<rparr>, NA)]"
    by (simp add: present_rows_def period_of_def)
  have ord: "sorted_wrt (<) (map fst (group_sum ?K ?X))"
    using aggregation_by_month [OF len] by blast
  have s: "group_sum ?K ?X = group_sum (map fst (present_rows ?K ?X)) (map snd (present_rows ?K ?X))"
    and c: "group_count ?K ?X = group_count (map fst (present_rows ?K ?X)) (map snd (present_rows ?K ?X))"
    and z: "group_size ?K = group_size (map fst (present_rows ?K ?X))"
    using aggregation_by_month [OF len] by blast+
  have s': "group_sum ?K ?X = [((2023, 11), 5 / 2), ((2023, 12), 1)]"
    unfolding s present
    by (simp add: group_sum_def groupby_def group_keys_def group_rows_def period_of_def
        sum_numbers_def number_of_def)
  have c': "group_count ?K ?X = [((2023, 11), 1), ((2023, 12), 1)]"
    unfolding c present
    by (simp add: group_count_def groupby_def group_keys_def group_rows_def period_of_def)
  have z': "group_size ?K = [((2023, 11), 1), ((2023, 12), 2)]"
    unfolding z present
    by (simp add: group_size_def groupby_def group_keys_def group_rows_def period_of_def)
  from len ord s' c' z' show ?thesis by blast
qed


section \<open>Claims about the charts and the report\<close>

lemma charts_append [simp]: "charts (a @ b) = charts a @ charts b"
  by (simp add: charts_def List.map_filter_def)

lemma charts_summary [simp]: "charts (summary n a b c) = []"
  by (simp add: charts_def summary_def)







lemma charts_pictures [simp]: "charts (map (\<lambda>c. Picture c 5) cs) = cs"
  by (induction cs) (simp_all add: charts_def)

lemma isl_bind_exn: "isl (bind_exn r f) \<longleftrightarrow> isl r \<or> (\<exists>x. r = Inr x \<and> isl (f x))"
  by (cases r) (simp_all add: bind_exn_def)






lemma group_keys_empty: "group_keys keys = [] \<longleftrightarrow> (\<forall>c \<in> set keys. period_of c = None)"
proof -
  have "group_keys keys = [] \<longleftrightarrow> set (group_keys keys) = {}"
    by simp
  also have "\<dots> \<longleftrightarrow> (\<forall>c \<in> set keys. period_of c = None)"
    unfolding set_group_keys
  proof
    assume e: "{k. \<exists>c\<in>set keys. period_of c = Some k} = {}"
    show "\<forall>c \<in> set keys. period_of c = None"
    proof
      fix c assume "c \<in> set keys"
      with e show "period_of c = None"
        by (cases "period_of c") auto
    qed
  next
    assume "\<forall>c \<in> set keys. period_of c = None"
    then show "{k. \<exists>c\<in>set keys. period_of c = Some k} = {}"
      by auto
  qed
  finally show ?thesis .
qed

text \<open>
  Claim C9. \<^verbatim>\<open>create_graph\<close> returns \<^verbatim>\<open>None\<close> exactly when the series is empty,
  and for a series that is not empty it returns a buffer, drawn from the months and the
  values of the series. The series of an aggregation is empty exactly when no row of the
  table has a date.
\<close>

theorem create_graph_absent_iff_empty:
  "(create_graph data heading x_label y_label graph_type = None \<longleftrightarrow> data = []) \<and>
   (data \<noteq> [] \<longrightarrow>
      (\<exists>buffer. create_graph data heading x_label y_label graph_type = Some buffer \<and>
         x_ticks buffer = map (\<lambda>r. period_str (fst r)) data \<and> heights buffer = map snd data \<and>
         chart_title buffer = heading)) \<and>
   (create_graph (group_size keys) heading x_label y_label graph_type = None \<longleftrightarrow>
      (\<forall>c \<in> set keys. period_of c = None)) \<and>
   (create_graph (group_count keys xs) heading x_label y_label graph_type = None \<longleftrightarrow>
      (\<forall>c \<in> set keys. period_of c = None)) \<and>
   (create_graph (group_sum keys xs) heading x_label y_label graph_type = None \<longleftrightarrow>
      (\<forall>c \<in> set keys. period_of c = None))"
proof -
  have a: "create_graph d heading x_label y_label graph_type = None \<longleftrightarrow> d = []" for d
    by (simp add: create_graph_def)
  have b: "group_size keys = [] \<longleftrightarrow> group_keys keys = []"
    "group_count keys xs = [] \<longleftrightarrow> group_keys keys = []"
    "group_sum keys xs = [] \<longleftrightarrow> group_keys keys = []"
    by (simp_all add: reductions_unfold)
  have c: "\<exists>buffer. create_graph data heading x_label y_label graph_type = Some buffer \<and>
         x_ticks buffer = map (\<lambda>r. period_str (fst r)) data \<and> heights buffer = map snd data \<and>
         chart_title buffer = heading" if "data \<noteq> []"
    using that by (simp add: create_graph_def)
  show ?thesis
    using c by (simp only: a b group_keys_empty) blast
qed

theorem create_graph_absent_iff_empty_witness:
  "create_graph [] ''Sales per Month'' ''Month'' ''Number of Sales'' ''bar'' = None \<and>
   [((2023, 11), 4 :: rat)] \<noteq> [] \<and>
   create_graph [((2023, 11), 4)] ''Sales per Month'' ''Month'' ''Number of Sales'' ''bar'' =
     Some \<lparr>kind = Bar, x_ticks = [''2023-11''], heights = [4], chart_title = ''Sales per Month'',
            xlabel = ''Month'', ylabel = ''Number of Sales''\<rparr> \<and>
   create_graph [((2023, 11), 4)] ''Sales per Month'' ''Month'' ''Number of Sales'' ''bar'' \<noteq> None"
proof -
  have n: "[((2023, 11), 4 :: rat)] \<noteq> []" by simp
  have e: "create_graph [] ''Sales per Month'' ''Month'' ''Number of Sales'' ''bar'' = None"
    using create_graph_absent_iff_empty [of "[]" "''Sales per Month''" "''Month''" "''Number of Sales''" "''bar''"]
    by blast
  have s: "create_graph [((2023, 11), 4)] ''Sales per Month'' ''Month'' ''Number of Sales'' ''bar'' \<noteq> None"
    using create_graph_absent_iff_empty [of "[((2023, 11), 4)]" "''Sales per Month''" "''Month''" "''Number of Sales''" "''bar''"] n
    by blast
  have v: "create_graph [((2023, 11), 4)] ''Sales per Month'' ''Month'' ''Number of Sales'' ''bar'' =
     Some \<lparr>kind = Bar, x_ticks = [''2023-11''], heights = [4], chart_title = ''Sales per Month'',
            xlabel = ''Month'', ylabel = ''Number of Sales''\<rparr>"
    by (simp add: create_graph_def period_str_def zero_pad_def show_nat.simps digit_char_def)
  from n e s v show ?thesis by blast
qed


section \<open>Claims about the batch loop\<close>

lemma fst_bind_io: "fst (bind_io m f) = bind_exn (fst m) (\<lambda>x. fst (f x))"
  by (cases "fst m") (simp_all add: bind_io_def bind_exn_def)


lemma quiet_simps [simp]: "fst (quiet r) = r" "snd (quiet r) = []"
  by (simp_all add: quiet_def)








lemma process_source_result:
  "fst (process_source client u) =
     bind_exn (client u) (\<lambda>sheet.
     bind_exn (fst (fetch_products_data sheet)) (\<lambda>products.
     bind_exn (fst (fetch_orders_data sheet)) (\<lambda>orders.
     bind_exn (fst (fetch_hours_data sheet)) (\<lambda>hours.
     bind_exn (generate_report (title sheet) products orders hours) (\<lambda>report_buffer.
     Inr (title sheet, report_buffer))))))"
  by (simp add: process_source_def fst_bind_io)

lemma fetch_result:
  "fst (fetch_products_data sheet) = bind_exn (raw_data_of sheet ''PRODUCTS'') normalize_products"
  "fst (fetch_orders_data sheet) = bind_exn (raw_data_of sheet ''ORDERS'') normalize_orders"
  "fst (fetch_hours_data sheet) = bind_exn (raw_data_of sheet ''HOURSWORKED'') normalize_hours"
  by (simp_all add: fetch_products_data_def fetch_orders_data_def fetch_hours_data_def
      raw_data_of_def fst_bind_io bind_exn_def split: sum.splits)



lemma safe_fetch_first:
  assumes "ws 0 = Inr g" and "0 < r"
  shows "safe_fetch_worksheet ws r d = (Inr g, [GetAllValues])"
proof -
  from assms(2) have "[0..<nat r] = 0 # [Suc 0..<nat r]"
    by (simp add: upt_conv_Cons)
  with assms(1) show ?thesis
    by (simp add: safe_fetch_worksheet_def)
qed

lemma raw_data_first:
  assumes "worksheet sheet name = Inr ws" and "ws 0 = Inr g"
  shows "raw_data_of sheet name = Inr g"
  using assms safe_fetch_first [of ws g 5 2]
  by (simp add: raw_data_of_def fst_bind_io)

lemma fmt2_zero: "fmt2 0 = ''0.00''"
  by (simp add: fmt2_def round_half_even_def zero_pad_def show_nat.simps digit_char_def)

lemma generate_report_empty:
  "generate_report name empty_frame empty_frame empty_frame =
     Inr [Heading (''Report for '' @ name) 0, Paragraph ''Total Sales: $0.00'',
          Paragraph ''Total Profit: $0.00'', Paragraph ''Total Hours Worked: 0.00 hours'',
          Heading ''Graphs'' 1]"
proof -
  have fe: "frame_empty empty_frame"
    by (simp add: frame_empty_def empty_frame_def)
  have tot: "column_total empty_frame n = Inr 0" for n
    by (simp add: column_total_def empty_frame_def col_names_def)
  show ?thesis
    by (simp add: generate_report_def tot fmt2_zero products_section_def orders_section_def
        hours_section_def fe)
qed

text \<open>A source whose three worksheets all hold the same grid of fewer than 2 rows.\<close>

lemma short_source_result:
  assumes "client u = Inr sheet" and "\<And>n. raw_data_of sheet n = Inr g" and "length g < 2"
  shows "batch_result client u =
     download_button (title sheet)
       [Heading (''Report for '' @ title sheet) 0, Paragraph ''Total Sales: $0.00'',
        Paragraph ''Total Profit: $0.00'', Paragraph ''Total Hours Worked: 0.00 hours'',
        Heading ''Graphs'' 1]"
  using assms(1,2) normalize_short [OF assms(3)]
  by (simp add: batch_result_def process_source_result fetch_result generate_report_empty)


text \<open>
  Claim C4, as the script has it. On a grid with at least 2 rows whose header lacks a
  source column of the schema, the normalizer raises; and when the grid fetched for one
  of the three worksheets of a source is such a grid, the result of the source in the
  batch is the error with its link.
\<close>

theorem missing_column_is_source_error:
  "(2 \<le> length g \<and> \<not> set products_source \<subseteq> set (hd g) \<longrightarrow> isl (normalize_products g)) \<and>
   (2 \<le> length g \<and> \<not> set orders_source \<subseteq> set (hd g) \<longrightarrow> isl (normalize_orders g)) \<and>
   (2 \<le> length g \<and> \<not> set hours_source \<subseteq> set (hd g) \<longrightarrow> isl (normalize_hours g)) \<and>
   (client u = Inr sheet \<and> 2 \<le> length g \<and>
    (raw_data_of sheet ''PRODUCTS'' = Inr g \<and> \<not> set products_source \<subseteq> set (hd g) \<or>
     raw_data_of sheet ''ORDERS'' = Inr g \<and> \<not> set orders_source \<subseteq> set (hd g) \<or>
     raw_data_of sheet ''HOURSWORKED'' = Inr g \<and> \<not> set hours_source \<subseteq> set (hd g)) \<longrightarrow>
      (\<exists>e. batch_result client u = StError (error_text u e)))"
proof -
  have present: "set names \<subseteq> set (hd g)" if "well_formed names g" for names
  proof
    fix n assume "n \<in> set names"
    with that have "count_list (hd g) n = 1"
      by (auto simp: well_formed_def list_all_iff)
    then show "n \<in> set (hd g)"
      using count_list_0_iff [of "hd g" n] by auto
  qed
  have p: "isl (normalize_products g)" if "2 \<le> length g" "\<not> set products_source \<subseteq> set (hd g)"
    using normalize_products_returns [OF that(1)] present that(2)
    by (cases "normalize_products g") auto
  have o: "isl (normalize_orders g)" if "2 \<le> length g" "\<not> set orders_source \<subseteq> set (hd g)"
    using normalize_orders_returns [OF that(1)] present that(2)
    by (cases "normalize_orders g") auto
  have h: "isl (normalize_hours g)" if "2 \<le> length g" "\<not> set hours_source \<subseteq> set (hd g)"
    using normalize_hours_returns [OF that(1)] present that(2)
    by (cases "normalize_hours g") auto
  have raised: "\<exists>e. batch_result client u = StError (error_text u e)"
    if "isl (fst (process_source client u))"
    using that by (cases "fst (process_source client u)") (auto simp: batch_result_def)
  have b: "\<exists>e. batch_result client u = StError (error_text u e)"
    if c: "client u = Inr sheet" and two: "2 \<le> length g" and
      m: "raw_data_of sheet ''PRODUCTS'' = Inr g \<and> \<not> set products_source \<subseteq> set (hd g) \<or>
          raw_data_of sheet ''ORDERS'' = Inr g \<and> \<not> set orders_source \<subseteq> set (hd g) \<or>
          raw_data_of sheet ''HOURSWORKED'' = Inr g \<and> \<not> set hours_source \<subseteq> set (hd g)"
  proof (rule raised)
    from m consider
      (P) "raw_data_of sheet ''PRODUCTS'' = Inr g" "\<not> set products_source \<subseteq> set (hd g)" |
      (O) "raw_data_of sheet ''ORDERS'' = Inr g" "\<not> set orders_source \<subseteq> set (hd g)" |
      (H) "raw_data_of sheet ''HOURSWORKED'' = Inr g" "\<not> set hours_source \<subseteq> set (hd g)"
      by blast
    then show "isl (fst (process_source client u))"
    proof cases
      case P
      with p [OF two] have "isl (fst (fetch_products_data sheet))"
        by (simp add: fetch_result)
      then show ?thesis
        by (simp add: process_source_result c isl_bind_exn)
    next
      case O
      with o [OF two] have "isl (fst (fetch_orders_data sheet))"
        by (simp add: fetch_result)
      then show ?thesis
        by (cases "fst (fetch_products_data sheet)") (simp_all add: process_source_result c isl_bind_exn)
    next
      case H
      with h [OF two] have "isl (fst (fetch_hours_data sheet))"
        by (simp add: fetch_result)
      then show ?thesis
        by (cases "fst (fetch_products_data sheet)"; cases "fst (fetch_orders_data sheet)")
           (simp_all add: process_source_result c isl_bind_exn)
    qed
  qed
  show ?thesis
    using p o h b by blast
qed

theorem missing_column_is_source_error_witness:
  "2 \<le> length [[''eBay Price''], [''12.50'']] \<and>
   \<not> set products_source \<subseteq> set (hd [[''eBay Price''], [''12.50'']]) \<and>
   isl (normalize_products [[''eBay Price''], [''12.50'']]) \<and>
   raw_data_of \<lparr>title = ''Acme'', worksheet = (\<lambda>n. Inr (\<lambda>k. Inr [[''eBay Price''], [''12.50'']]))\<rparr>
     ''PRODUCTS'' = Inr [[''eBay Price''], [''12.50'']] \<and>
   (\<exists>e. batch_result
      (\<lambda>u. Inr \<lparr>title = ''Acme'', worksheet = (\<lambda>n. Inr (\<lambda>k. Inr [[''eBay Price''], [''12.50'']]))\<rparr>)
      ''link'' = StError (error_text ''link'' e))"
proof -
  let ?g = "[[''eBay Price''], [''12.50'']]"
  let ?sheet = "\<lparr>title = ''Acme'', worksheet = (\<lambda>n. Inr (\<lambda>k. Inr ?g))\<rparr>"
  have two: "2 \<le> length ?g" by simp
  have missing: "\<not> set products_source \<subseteq> set (hd ?g)"
    by (simp add: products_source_def)
  have raw: "raw_data_of ?sheet ''PRODUCTS'' = Inr ?g"
    by (rule raw_data_first [of _ _ "\<lambda>k. Inr ?g"]) simp_all
  have raised: "isl (normalize_products ?g)"
    using missing_column_is_source_error [of ?g] two missing by blast
  have "\<exists>e. batch_result (\<lambda>u. Inr ?sheet) ''link'' = StError (error_text ''link'' e)"
    using missing_column_is_source_error [of ?g "\<lambda>u. Inr ?sheet" "''link''" ?sheet] two missing raw
    by blast
  with two missing raw raised show ?thesis by blast
qed

text \<open>
  The claim as it was stated fails on a grid without data rows: the header-only grid
  below lacks source columns of all three schemas, no normalizer raises on it, and the
  source whose worksheets hold it gets its report, not an error.
\<close>

theorem header_only_grid_never_raises:
  "\<not> set products_source \<subseteq> set (hd [[''eBay Price'']]) \<and>
   \<not> set orders_source \<subseteq> set (hd [[''eBay Price'']]) \<and>
   \<not> set hours_source \<subseteq> set (hd [[''eBay Price'']]) \<and>
   normalize_products [[''eBay Price'']] = Inr empty_frame \<and>
   normalize_orders [[''eBay Price'']] = Inr empty_frame \<and>
   normalize_hours [[''eBay Price'']] = Inr empty_frame \<and>
   batch_result
     (\<lambda>u. Inr \<lparr>title = ''Acme'', worksheet = (\<lambda>n. Inr (\<lambda>k. Inr [[''eBay Price'']]))\<rparr>) ''link'' =
     download_button ''Acme''
       [Heading ''Report for Acme'' 0, Paragraph ''Total Sales: $0.00'',
        Paragraph ''Total Profit: $0.00'', Paragraph ''Total Hours Worked: 0.00 hours'',
        Heading ''Graphs'' 1]"
proof -
  let ?g = "[[''eBay Price'']]"
  let ?sheet = "\<lparr>title = ''Acme'', worksheet = (\<lambda>n. Inr (\<lambda>k. Inr ?g))\<rparr>"
  have short: "length ?g < 2" by simp
  have missing: "\<not> set products_source \<subseteq> set (hd ?g)" "\<not> set orders_source \<subseteq> set (hd ?g)"
    "\<not> set hours_source \<subseteq> set (hd ?g)"
    by (simp_all add: products_source_def orders_source_def hours_source_def)
  have raw: "raw_data_of ?sheet n = Inr ?g" for n
    by (rule raw_data_first [of _ _ "\<lambda>k. Inr ?g"]) simp_all
  have "batch_result (\<lambda>u. Inr ?sheet) ''link'' = download_button ''Acme''
       [Heading ''Report for Acme'' 0, Paragraph ''Total Sales: $0.00'',
        Paragraph ''Total Profit: $0.00'', Paragraph ''Total Hours Worked: 0.00 hours'',
        Heading ''Graphs'' 1]"
    using short_source_result [of "\<lambda>u. Inr ?sheet" "''link''" ?sheet ?g] raw short by simp
  with missing normalize_short [OF short] show ?thesis by blast
qed


end
